theory Spec2Isabelle
  imports Complex_Main
begin

section \<open>Python values, dictionaries and exceptions\<close>

text \<open>
  The orchestration code passes JSON-like dictionaries around.  A Python \<open>dict\<close> keeps the
  insertion order of its keys, which the code relies on (\<open>list(d.keys())\<close>,
  \<open>d.values()\<close>, \<open>max(d, key=...)\<close>), so a dictionary is an association list with
  distinct keys.  Strings are byte strings: non-ASCII text is its UTF-8 encoding.
  Python floats are modelled as reals; the code only compares and copies them.
\<close>

datatype pyval =
    VNone
  | VBool bool
  | VNum real
  | VStr string
  | VList "pyval list"
  | VDict "(string \<times> pyval) list"

type_synonym pydict = "(string \<times> pyval) list"

datatype py_exn =
    Exception string
  | KeyError string
  | UnboundLocalError string
  | ValueError string
  | HTTPException nat string

text \<open>The decimal digits of a number, as \<open>str\<close> and an f-string print it.\<close>

function str_nat :: "nat \<Rightarrow> string" where
  "str_nat n =
     (if n < 10 then [char_of (48 + n)]
      else str_nat (n div 10) @ [char_of (48 + n mod 10)])"
  by pat_completeness auto
termination
  by (relation "measure id") auto

declare str_nat.simps [simp del]

text \<open>
  \<open>str(e)\<close>; for a \<open>KeyError\<close> Python prints the repr of the key, and an
  \<open>HTTPException\<close> prints its status code, a colon and its detail.
\<close>

fun exn_str :: "py_exn \<Rightarrow> string" where
  "exn_str (Exception m) = m"
| "exn_str (KeyError k) = [CHR 0x27] @ k @ [CHR 0x27]"
| "exn_str (UnboundLocalError m) = m"
| "exn_str (ValueError m) = m"
| "exn_str (HTTPException c m) = str_nat c @ '': '' @ m"

text \<open>\<open>k in d\<close>, \<open>d.get(k, default)\<close>, \<open>d[k]\<close> and \<open>d[k] = v\<close>.\<close>

definition dict_has :: "(string \<times> 'v) list \<Rightarrow> string \<Rightarrow> bool" where
  "dict_has d k = (map_of d k \<noteq> None)"

definition dict_get :: "(string \<times> 'v) list \<Rightarrow> string \<Rightarrow> 'v \<Rightarrow> 'v" where
  "dict_get d k dflt = (case map_of d k of Some v \<Rightarrow> v | None \<Rightarrow> dflt)"

definition dict_item :: "(string \<times> 'v) list \<Rightarrow> string \<Rightarrow> py_exn + 'v" where
  "dict_item d k = (case map_of d k of Some v \<Rightarrow> Inr v | None \<Rightarrow> Inl (KeyError k))"

fun dict_set :: "(string \<times> 'v) list \<Rightarrow> string \<Rightarrow> 'v \<Rightarrow> (string \<times> 'v) list" where
  "dict_set [] k v = [(k, v)]"
| "dict_set ((k', v') # d) k v = (if k' = k then (k, v) # d else (k', v') # dict_set d k v)"

definition dict_keys :: "(string \<times> 'v) list \<Rightarrow> string list" where
  "dict_keys d = map fst d"

definition dict_values :: "(string \<times> 'v) list \<Rightarrow> 'v list" where
  "dict_values d = map snd d"

section \<open>The agent coordinator (Frontend/src/agents/cordinates.py)\<close>

text \<open>
  The query analysis is the JSON object asked of the language model.  Of its keys the
  routing reads \<open>required_agents\<close> (with \<open>.get\<close>) and \<open>type\<close> (with \<open>[...]\<close>), and the
  final answer reads \<open>urgency\<close>; a key that is absent is \<open>None\<close> here.  The model covers
  analyses whose \<open>required_agents\<close> is a list of strings and whose \<open>type\<close> is a string.
\<close>

record analysis =
  a_type :: "string option"
  a_required_agents :: "string list option"
  a_urgency :: "string option"

text \<open>
  What the coordinator calls but does not define: the four specialised agents, the
  language detector, the language-model interface, the response formatter and the clock.
  Every call may raise.  The two language-model steps are given by their outcome after
  \<open>json.loads\<close>: \<open>Inl\<close> when the completion or the parsing raises.
\<close>

record coordinator_env =
  get_advice :: "string \<Rightarrow> pydict option \<Rightarrow> py_exn + pydict"
  get_forecast :: "string \<Rightarrow> pydict option \<Rightarrow> py_exn + pydict"
  get_financial_advice :: "string \<Rightarrow> pydict option \<Rightarrow> py_exn + pydict"
  diagnose_and_treat :: "string \<Rightarrow> pydict option \<Rightarrow> py_exn + pydict"
  detect_language :: "string \<Rightarrow> py_exn + string"
  translate_to_english :: "string \<Rightarrow> py_exn + string"
  translate_from_english :: "pyval \<Rightarrow> string \<Rightarrow> py_exn + pyval"
  analysis_completion :: "string \<Rightarrow> pydict option \<Rightarrow> py_exn + analysis"
  synthesis_completion ::
    "string \<Rightarrow> (string \<times> pydict) list \<Rightarrow> analysis \<Rightarrow> pydict option \<Rightarrow> py_exn + pyval"
  format_response :: "pydict \<Rightarrow> string \<Rightarrow> pydict option \<Rightarrow> py_exn + pydict"
  now_isoformat :: string
  elapsed_seconds :: real

subsection \<open>\<open>_analyze_query\<close>\<close>

definition analyze_query :: "coordinator_env \<Rightarrow> string \<Rightarrow> pydict option \<Rightarrow> analysis" where
  "analyze_query env query context =
     (case analysis_completion env query context of
        Inr a \<Rightarrow> a
      | Inl e \<Rightarrow> \<lparr>a_type = Some ''general'',
                  a_required_agents = Some [''crop_advisor''],
                  a_urgency = Some ''medium''\<rparr>)"

subsection \<open>The four \<open>_call_*\<close> wrappers\<close>

text \<open>Each wrapper catches every exception of its agent and returns an error dictionary.\<close>

definition error_dict :: "py_exn \<Rightarrow> string \<Rightarrow> pydict" where
  "error_dict e name = [(''error'', VStr (exn_str e)), (''agent'', VStr name)]"

definition call_crop_advisor :: "coordinator_env \<Rightarrow> string \<Rightarrow> pydict option \<Rightarrow> py_exn + pydict" where
  "call_crop_advisor env query context =
     (case get_advice env query context of
        Inr r \<Rightarrow> Inr r
      | Inl e \<Rightarrow> Inr (error_dict e ''crop_advisor''))"

definition call_weather_agent :: "coordinator_env \<Rightarrow> string \<Rightarrow> pydict option \<Rightarrow> py_exn + pydict" where
  "call_weather_agent env query context =
     (case get_forecast env query context of
        Inr r \<Rightarrow> Inr r
      | Inl e \<Rightarrow> Inr (error_dict e ''weather_agent''))"

definition call_finance_agent :: "coordinator_env \<Rightarrow> string \<Rightarrow> pydict option \<Rightarrow> py_exn + pydict" where
  "call_finance_agent env query context =
     (case get_financial_advice env query context of
        Inr r \<Rightarrow> Inr r
      | Inl e \<Rightarrow> Inr (error_dict e ''finance_agent''))"

definition call_pest_disease_agent :: "coordinator_env \<Rightarrow> string \<Rightarrow> pydict option \<Rightarrow> py_exn + pydict" where
  "call_pest_disease_agent env query context =
     (case diagnose_and_treat env query context of
        Inr r \<Rightarrow> Inr r
      | Inl e \<Rightarrow> Inr (error_dict e ''pest_disease_agent''))"

subsection \<open>\<open>_route_to_agents\<close>\<close>

text \<open>
  \<open>name in required_agents or analysis['type'] in types\<close>: the subscript is only evaluated
  when the first disjunct is false, and raises \<open>KeyError\<close> when the key is absent.
\<close>

definition selected :: "analysis \<Rightarrow> string list \<Rightarrow> string \<Rightarrow> string list \<Rightarrow> py_exn + bool" where
  "selected a required_agents name types =
     (if name \<in> set required_agents then Inr True
      else case a_type a of
             None \<Rightarrow> Inl (KeyError ''type'')
           | Some t \<Rightarrow> Inr (t \<in> set types))"

definition agent_names :: "string list" where
  "agent_names = [''crop_advisor'', ''weather_agent'', ''finance_agent'', ''pest_disease_agent'']"

text \<open>
  The loop over \<open>enumerate(results)\<close>: a result that is not an exception is stored under
  \<open>agent_names[i]\<close>, where \<open>i\<close> is its position among the tasks that were started; an
  exception is logged and not stored.
\<close>

fun collect_results ::
  "nat \<Rightarrow> (py_exn + pydict) list \<Rightarrow> (string \<times> pydict) list \<Rightarrow> (string \<times> pydict) list" where
  "collect_results i [] agent_responses = agent_responses"
| "collect_results i (Inr result # results) agent_responses =
     (if i < length agent_names
      then collect_results (Suc i) results (dict_set agent_responses (agent_names ! i) result)
      else collect_results (Suc i) results agent_responses)"
| "collect_results i (Inl e # results) agent_responses =
     collect_results (Suc i) results agent_responses"

definition route_to_agents ::
  "coordinator_env \<Rightarrow> string \<Rightarrow> analysis \<Rightarrow> pydict option \<Rightarrow> py_exn + (string \<times> pydict) list" where
  "route_to_agents env query a context =
     (let required_agents = (case a_required_agents a of Some r \<Rightarrow> r | None \<Rightarrow> [''crop_advisor''])
      in case selected a required_agents ''crop_advisor'' [''crop_selection'', ''general''] of
           Inl e \<Rightarrow> Inl e
         | Inr c \<Rightarrow>
      (case selected a required_agents ''weather_agent'' [''weather''] of
           Inl e \<Rightarrow> Inl e
         | Inr w \<Rightarrow>
      (case selected a required_agents ''finance_agent'' [''finance'', ''market''] of
           Inl e \<Rightarrow> Inl e
         | Inr f \<Rightarrow>
      (case selected a required_agents ''pest_disease_agent'' [''pest_disease''] of
           Inl e \<Rightarrow> Inl e
         | Inr p \<Rightarrow>
             (let tasks = (if c then [call_crop_advisor env query context] else [])
                        @ (if w then [call_weather_agent env query context] else [])
                        @ (if f then [call_finance_agent env query context] else [])
                        @ (if p then [call_pest_disease_agent env query context] else [])
              in Inr (collect_results 0 tasks []))))))"

subsection \<open>\<open>_get_best_agent_response\<close> and \<open>_synthesize_responses\<close>\<close>

definition priority :: "string list" where
  "priority = [''crop_advisor'', ''weather_agent'', ''finance_agent'', ''pest_disease_agent'']"

definition no_valid_response :: pydict where
  "no_valid_response = [(''answer'', VStr ''No valid response available''), (''confidence'', VNum 0.0)]"

fun first_by_priority :: "string list \<Rightarrow> (string \<times> pydict) list \<Rightarrow> pydict option" where
  "first_by_priority [] agent_responses = None"
| "first_by_priority (agent # rest) agent_responses =
     (case map_of agent_responses agent of
        Some r \<Rightarrow> if \<not> dict_has r ''error'' then Some r
                  else first_by_priority rest agent_responses
      | None \<Rightarrow> first_by_priority rest agent_responses)"

definition get_best_agent_response :: "(string \<times> pydict) list \<Rightarrow> pydict" where
  "get_best_agent_response agent_responses =
     (case first_by_priority priority agent_responses of
        Some r \<Rightarrow> r
      | None \<Rightarrow>
          (case List.find (\<lambda>response. \<not> dict_has response ''error'') (dict_values agent_responses) of
             Some r \<Rightarrow> r
           | None \<Rightarrow> no_valid_response))"

definition synth_default_answer :: string where
  "synth_default_answer =
    [
     CHR 0xE0, CHR 0xA4, CHR 0xAE, CHR 0xE0, CHR 0xA5, CHR 0x81, CHR 0xE0, CHR 0xA4, CHR 0x9D,
     CHR 0xE0, CHR 0xA5, CHR 0x87, CHR 0x20, CHR 0xE0, CHR 0xA4, CHR 0x87, CHR 0xE0, CHR 0xA4,
     CHR 0xB8, CHR 0x20, CHR 0xE0, CHR 0xA4, CHR 0xB8, CHR 0xE0, CHR 0xA4, CHR 0xAE, CHR 0xE0,
     CHR 0xA4, CHR 0xAF, CHR 0x20, CHR 0xE0, CHR 0xA4, CHR 0x89, CHR 0xE0, CHR 0xA4, CHR 0xA4,
     CHR 0xE0, CHR 0xA5, CHR 0x8D, CHR 0xE0, CHR 0xA4, CHR 0xA4, CHR 0xE0, CHR 0xA4, CHR 0xB0,
     CHR 0x20, CHR 0xE0, CHR 0xA4, CHR 0xA6, CHR 0xE0, CHR 0xA5, CHR 0x87, CHR 0xE0, CHR 0xA4,
     CHR 0xA8, CHR 0xE0, CHR 0xA5, CHR 0x87, CHR 0x20, CHR 0xE0, CHR 0xA4, CHR 0xAE, CHR 0xE0,
     CHR 0xA5, CHR 0x87, CHR 0xE0, CHR 0xA4, CHR 0x82, CHR 0x20, CHR 0xE0, CHR 0xA4, CHR 0x95,
     CHR 0xE0, CHR 0xA5, CHR 0x81, CHR 0xE0, CHR 0xA4, CHR 0x9B, CHR 0x20, CHR 0xE0, CHR 0xA4,
     CHR 0x95, CHR 0xE0, CHR 0xA4, CHR 0xA0, CHR 0xE0, CHR 0xA4, CHR 0xBF, CHR 0xE0, CHR 0xA4,
     CHR 0xA8, CHR 0xE0, CHR 0xA4, CHR 0xBE, CHR 0xE0, CHR 0xA4, CHR 0x88, CHR 0x20, CHR 0xE0,
     CHR 0xA4, CHR 0xB9, CHR 0xE0, CHR 0xA5, CHR 0x8B, CHR 0x20, CHR 0xE0, CHR 0xA4, CHR 0xB0,
     CHR 0xE0, CHR 0xA4, CHR 0xB9, CHR 0xE0, CHR 0xA5, CHR 0x80, CHR 0x20, CHR 0xE0, CHR 0xA4,
     CHR 0xB9, CHR 0xE0, CHR 0xA5, CHR 0x88, CHR 0xE0, CHR 0xA5, CHR 0xA4]"

text \<open>
  The generation step and everything after it is inside the \<open>try\<close>.  Only a parsed JSON
  object can be given the two metadata keys; any other parsed value raises at the first
  item assignment, which the same \<open>except\<close> catches.
\<close>

definition synthesize_responses ::
  "coordinator_env \<Rightarrow> string \<Rightarrow> (string \<times> pydict) list \<Rightarrow> analysis \<Rightarrow> pydict option \<Rightarrow> pydict" where
  "synthesize_responses env query agent_responses a context =
     (case synthesis_completion env query agent_responses a context of
        Inr (VDict synthesized) \<Rightarrow>
          dict_set
            (dict_set synthesized ''synthesis_timestamp'' (VStr (now_isoformat env)))
            ''agents_consulted'' (VList (map VStr (dict_keys agent_responses)))
      | _ \<Rightarrow>
          (let best_response = get_best_agent_response agent_responses
           in [(''answer'', dict_get best_response ''answer'' (VStr synth_default_answer)),
               (''confidence'', VNum 0.5),
               (''sources'', dict_get best_response ''sources'' (VList [])),
               (''key_recommendations'', dict_get best_response ''recommendations'' (VList [])),
               (''caveats'', VList [VStr ''Fallback response due to synthesis error'']),
               (''follow_up_questions'', VList [])]))"

subsection \<open>The conversation memory and \<open>process_query\<close>\<close>

text \<open>
  The coordinator owns one conversation memory, created in \<open>__init__\<close> with a window of
  five exchanges.  \<open>process_query\<close> only ever writes to it (\<open>save_context\<close>, with no
  session identifier) and \<open>clear_memory\<close> empties it; the model keeps the exchanges that
  were saved, in order.
\<close>

type_synonym memory = "(string \<times> pyval) list"

definition save_context :: "memory \<Rightarrow> string \<Rightarrow> pyval \<Rightarrow> memory" where
  "save_context m inp out = m @ [(inp, out)]"

definition clear_memory :: "memory \<Rightarrow> memory" where
  "clear_memory m = []"

definition coordinator_error_answer :: string where
  "coordinator_error_answer =
    [
     CHR 0xE0, CHR 0xA4, CHR 0xAE, CHR 0xE0, CHR 0xA5, CHR 0x81, CHR 0xE0, CHR 0xA4, CHR 0x9D,
     CHR 0xE0, CHR 0xA5, CHR 0x87, CHR 0x20, CHR 0xE0, CHR 0xA4, CHR 0x96, CHR 0xE0, CHR 0xA5,
     CHR 0x81, CHR 0xE0, CHR 0xA4, CHR 0xB6, CHR 0xE0, CHR 0xA5, CHR 0x80, CHR 0x20, CHR 0xE0,
     CHR 0xA4, CHR 0xB9, CHR 0xE0, CHR 0xA5, CHR 0x8B, CHR 0xE0, CHR 0xA4, CHR 0x97, CHR 0xE0,
     CHR 0xA5, CHR 0x80, CHR 0x20, CHR 0xE0, CHR 0xA4, CHR 0x95, CHR 0xE0, CHR 0xA4, CHR 0xBF,
     CHR 0x20, CHR 0xE0, CHR 0xA4, CHR 0xAE, CHR 0xE0, CHR 0xA5, CHR 0x88, CHR 0xE0, CHR 0xA4,
     CHR 0x82, CHR 0x20, CHR 0xE0, CHR 0xA4, CHR 0x86, CHR 0xE0, CHR 0xA4, CHR 0xAA, CHR 0xE0,
     CHR 0xA4, CHR 0x95, CHR 0xE0, CHR 0xA5, CHR 0x80, CHR 0x20, CHR 0xE0, CHR 0xA4, CHR 0xAE,
     CHR 0xE0, CHR 0xA4, CHR 0xA6, CHR 0xE0, CHR 0xA4, CHR 0xA6, CHR 0x20, CHR 0xE0, CHR 0xA4,
     CHR 0x95, CHR 0xE0, CHR 0xA4, CHR 0xB0, CHR 0x20, CHR 0xE0, CHR 0xA4, CHR 0xB8, CHR 0xE0,
     CHR 0xA4, CHR 0x95, CHR 0xE0, CHR 0xA5, CHR 0x82, CHR 0xE0, CHR 0xA4, CHR 0x82, CHR 0x2C,
     CHR 0x20, CHR 0xE0, CHR 0xA4, CHR 0xB2, CHR 0xE0, CHR 0xA5, CHR 0x87, CHR 0xE0, CHR 0xA4,
     CHR 0x95, CHR 0xE0, CHR 0xA4, CHR 0xBF, CHR 0xE0, CHR 0xA4, CHR 0xA8, CHR 0x20, CHR 0xE0,
     CHR 0xA4, CHR 0x85, CHR 0xE0, CHR 0xA4, CHR 0xAD, CHR 0xE0, CHR 0xA5, CHR 0x80, CHR 0x20,
     CHR 0xE0, CHR 0xA4, CHR 0xAE, CHR 0xE0, CHR 0xA5, CHR 0x81, CHR 0xE0, CHR 0xA4, CHR 0x9D,
     CHR 0xE0, CHR 0xA5, CHR 0x87, CHR 0x20, CHR 0xE0, CHR 0xA4, CHR 0x95, CHR 0xE0, CHR 0xA5,
     CHR 0x81, CHR 0xE0, CHR 0xA4, CHR 0x9B, CHR 0x20, CHR 0xE0, CHR 0xA4, CHR 0xA4, CHR 0xE0,
     CHR 0xA4, CHR 0x95, CHR 0xE0, CHR 0xA4, CHR 0xA8, CHR 0xE0, CHR 0xA5, CHR 0x80, CHR 0xE0,
     CHR 0xA4, CHR 0x95, CHR 0xE0, CHR 0xA5, CHR 0x80, CHR 0x20, CHR 0xE0, CHR 0xA4, CHR 0xB8,
     CHR 0xE0, CHR 0xA4, CHR 0xAE, CHR 0xE0, CHR 0xA4, CHR 0xB8, CHR 0xE0, CHR 0xA5, CHR 0x8D,
     CHR 0xE0, CHR 0xA4, CHR 0xAF, CHR 0xE0, CHR 0xA4, CHR 0xBE, CHR 0x20, CHR 0xE0, CHR 0xA4,
     CHR 0x95, CHR 0xE0, CHR 0xA4, CHR 0xBE, CHR 0x20, CHR 0xE0, CHR 0xA4, CHR 0xB8, CHR 0xE0,
     CHR 0xA4, CHR 0xBE, CHR 0xE0, CHR 0xA4, CHR 0xAE, CHR 0xE0, CHR 0xA4, CHR 0xA8, CHR 0xE0,
     CHR 0xA4, CHR 0xBE, CHR 0x20, CHR 0xE0, CHR 0xA4, CHR 0x95, CHR 0xE0, CHR 0xA4, CHR 0xB0,
     CHR 0xE0, CHR 0xA4, CHR 0xA8, CHR 0xE0, CHR 0xA4, CHR 0xBE, CHR 0x20, CHR 0xE0, CHR 0xA4,
     CHR 0xAA, CHR 0xE0, CHR 0xA4, CHR 0xA1, CHR 0xE0, CHR 0xA4, CHR 0xBC, CHR 0x20, CHR 0xE0,
     CHR 0xA4, CHR 0xB0, CHR 0xE0, CHR 0xA4, CHR 0xB9, CHR 0xE0, CHR 0xA4, CHR 0xBE, CHR 0x20,
     CHR 0xE0, CHR 0xA4, CHR 0xB9, CHR 0xE0, CHR 0xA5, CHR 0x88, CHR 0xE0, CHR 0xA5, CHR 0xA4,
     CHR 0x20, CHR 0xE0, CHR 0xA4, CHR 0x95, CHR 0xE0, CHR 0xA5, CHR 0x83, CHR 0xE0, CHR 0xA4,
     CHR 0xAA, CHR 0xE0, CHR 0xA4, CHR 0xAF, CHR 0xE0, CHR 0xA4, CHR 0xBE, CHR 0x20, CHR 0xE0,
     CHR 0xA4, CHR 0xA5, CHR 0xE0, CHR 0xA5, CHR 0x8B, CHR 0xE0, CHR 0xA4, CHR 0xA1, CHR 0xE0,
     CHR 0xA4, CHR 0xBC, CHR 0xE0, CHR 0xA5, CHR 0x80, CHR 0x20, CHR 0xE0, CHR 0xA4, CHR 0xA6,
     CHR 0xE0, CHR 0xA5, CHR 0x87, CHR 0xE0, CHR 0xA4, CHR 0xB0, CHR 0x20, CHR 0xE0, CHR 0xA4,
     CHR 0xAC, CHR 0xE0, CHR 0xA4, CHR 0xBE, CHR 0xE0, CHR 0xA4, CHR 0xA6, CHR 0x20, CHR 0xE0,
     CHR 0xA4, CHR 0x95, CHR 0xE0, CHR 0xA5, CHR 0x8B, CHR 0xE0, CHR 0xA4, CHR 0xB6, CHR 0xE0,
     CHR 0xA4, CHR 0xBF, CHR 0xE0, CHR 0xA4, CHR 0xB6, CHR 0x20, CHR 0xE0, CHR 0xA4, CHR 0x95,
     CHR 0xE0, CHR 0xA4, CHR 0xB0, CHR 0xE0, CHR 0xA5, CHR 0x87, CHR 0xE0, CHR 0xA4, CHR 0x82,
     CHR 0xE0, CHR 0xA5, CHR 0xA4]"

definition error_response :: "py_exn \<Rightarrow> pydict" where
  "error_response e =
     [(''answer'', VStr coordinator_error_answer),
      (''confidence'', VNum 0.0),
      (''sources'', VList []),
      (''error'', VStr (exn_str e)),
      (''language'', VStr ''hi'')]"

text \<open>Sequencing of calls that may raise: the first exception ends the sequence.\<close>

definition and_then :: "py_exn + 'a \<Rightarrow> ('a \<Rightarrow> py_exn + 'b) \<Rightarrow> py_exn + 'b" where
  "and_then m f = (case m of Inl e \<Rightarrow> Inl e | Inr x \<Rightarrow> f x)"

text \<open>Steps of the \<open>try\<close> block up to and including \<open>format_response\<close>; none touches the memory.\<close>

definition translate_answer :: "coordinator_env \<Rightarrow> string \<Rightarrow> pydict \<Rightarrow> py_exn + pydict" where
  "translate_answer env detected_language synthesized_response =
     (if detected_language \<noteq> ''en''
      then and_then (dict_item synthesized_response ''answer'') (\<lambda>answer.
           and_then (translate_from_english env answer detected_language) (\<lambda>translated.
           Inr (dict_set synthesized_response ''answer'' translated)))
      else Inr synthesized_response)"

record formatted_query =
  fq_language :: string
  fq_analysis :: analysis
  fq_agent_responses :: "(string \<times> pydict) list"
  fq_formatted :: pydict

definition answer_query :: "coordinator_env \<Rightarrow> string \<Rightarrow> pydict option \<Rightarrow> py_exn + formatted_query" where
  "answer_query env query user_context =
     and_then (detect_language env query) (\<lambda>detected_language.
     and_then (if detected_language \<noteq> ''en'' then translate_to_english env query else Inr query)
       (\<lambda>english_query.
     let query_analysis = analyze_query env english_query user_context in
     and_then (route_to_agents env english_query query_analysis user_context) (\<lambda>agent_responses.
     let synthesized_response =
           synthesize_responses env english_query agent_responses query_analysis user_context in
     and_then (translate_answer env detected_language synthesized_response) (\<lambda>synthesized_response.
     and_then (format_response env synthesized_response detected_language user_context)
       (\<lambda>formatted_response.
     Inr \<lparr>fq_language = detected_language, fq_analysis = query_analysis,
          fq_agent_responses = agent_responses, fq_formatted = formatted_response\<rparr>)))))"

text \<open>The dictionary returned at the end of the \<open>try\<close> block, built after the memory was written.\<close>

definition final_response :: "coordinator_env \<Rightarrow> formatted_query \<Rightarrow> pyval \<Rightarrow> py_exn + pydict" where
  "final_response env fq answer =
     and_then (dict_item (fq_formatted fq) ''confidence'') (\<lambda>confidence.
     and_then (dict_item (fq_formatted fq) ''sources'') (\<lambda>sources.
     (case a_type (fq_analysis fq) of
        None \<Rightarrow> Inl (KeyError ''type'')
      | Some query_type \<Rightarrow>
          Inr [(''answer'', answer),
               (''confidence'', confidence),
               (''sources'', sources),
               (''recommendations'', dict_get (fq_formatted fq) ''recommendations'' (VList [])),
               (''follow_up_questions'', dict_get (fq_formatted fq) ''follow_up_questions'' (VList [])),
               (''language'', VStr (fq_language fq)),
               (''processing_time'', VNum (elapsed_seconds env)),
               (''agents_used'', VList (map VStr (dict_keys (fq_agent_responses fq)))),
               (''query_type'', VStr query_type),
               (''urgency'', VStr (case a_urgency (fq_analysis fq) of Some u \<Rightarrow> u | None \<Rightarrow> ''normal''))])))"

text \<open>
  \<open>AgentCoordinator.process_query\<close>: every exception of the \<open>try\<close> block becomes the fixed
  error dictionary.  The memory is written once \<open>formatted_response['answer']\<close> has been
  read, before the result dictionary is built.
\<close>

definition coordinator_process_query ::
  "coordinator_env \<Rightarrow> string \<Rightarrow> pydict option \<Rightarrow> memory \<Rightarrow> pydict \<times> memory" where
  "coordinator_process_query env query user_context m =
     (case answer_query env query user_context of
        Inl e \<Rightarrow> (error_response e, m)
      | Inr fq \<Rightarrow>
          (case dict_item (fq_formatted fq) ''answer'' of
             Inl e \<Rightarrow> (error_response e, m)
           | Inr answer \<Rightarrow>
               (let m' = save_context m query answer
                in case final_response env fq answer of
                     Inl e \<Rightarrow> (error_response e, m')
                   | Inr r \<Rightarrow> (r, m'))))"

section \<open>The query routes (Frontend/src/utils/query_handler.py)\<close>

text \<open>
  The module keeps the dictionary \<open>active_sessions\<close> and one coordinator, shared by all
  requests.  The text processor, the check \<open>not query.strip()\<close>, the construction of the
  validated \<open>QueryResponse\<close>, \<open>uuid4\<close> and the clock are taken from the environment.
\<close>

record session_data =
  created_at :: string
  queries :: "pydict list"
  session_context :: pydict

record handler_state =
  active_sessions :: "string \<rightharpoonup> session_data"
  coordinator_memory :: memory

record query_request =
  rq_query :: string
  rq_language :: "string option"
  rq_location :: "pydict option"
  rq_user_context :: "pydict option"
  rq_session_id :: "string option"

record handler_env =
  coordinator :: coordinator_env
  clean_text :: "string \<Rightarrow> py_exn + string"
  strip_is_empty :: "string \<Rightarrow> bool"
  query_response :: "pydict \<Rightarrow> py_exn + pydict"
  uuid4 :: string
  datetime_now :: string

definition get_session_id ::
  "handler_env \<Rightarrow> string option \<Rightarrow> (string \<rightharpoonup> session_data) \<Rightarrow> string \<times> (string \<rightharpoonup> session_data)" where
  "get_session_id env session_id active =
     (let known = (case session_id of None \<Rightarrow> False | Some s \<Rightarrow> s \<noteq> [] \<and> active s \<noteq> None)
      in if known then (the session_id, active)
         else (uuid4 env,
               active(uuid4 env \<mapsto> \<lparr>created_at = datetime_now env, queries = [], session_context = []\<rparr>)))"

text \<open>Lines 104--110: the exchange is appended to the session's list of queries.\<close>

definition store_query ::
  "handler_env \<Rightarrow> string \<Rightarrow> string \<Rightarrow> pyval \<Rightarrow> (string \<rightharpoonup> session_data) \<Rightarrow> (string \<rightharpoonup> session_data)" where
  "store_query env session_id query answer active =
     (case active session_id of
        None \<Rightarrow> active
      | Some s \<Rightarrow>
          active(session_id \<mapsto>
            s\<lparr>queries := queries s @
                 [[(''query'', VStr query), (''response'', answer),
                   (''timestamp'', VStr (datetime_now env))]]\<rparr>))"

fun dict_merge :: "(string \<times> 'v) list \<Rightarrow> (string \<times> 'v) list \<Rightarrow> (string \<times> 'v) list" where
  "dict_merge d [] = d"
| "dict_merge d ((k, v) # rest) = dict_merge (dict_set d k v) rest"

text \<open>
  The two handlers of the route: an \<open>HTTPException\<close> is raised again as it is, any
  other exception becomes an \<open>HTTPException\<close> with status 500.
\<close>

definition reraise :: "py_exn \<Rightarrow> py_exn" where
  "reraise e =
     (case e of
        HTTPException c m \<Rightarrow> HTTPException c m
      | _ \<Rightarrow> HTTPException 500 (''Internal server error: '' @ exn_str e))"

definition handler_process_query ::
  "handler_env \<Rightarrow> query_request \<Rightarrow> handler_state \<Rightarrow> (py_exn + pydict) \<times> handler_state" where
  "handler_process_query env request st =
     (case clean_text env (rq_query request) of
        Inl e \<Rightarrow> (Inl (reraise e), st)
      | Inr query \<Rightarrow>
          if strip_is_empty env query then (Inl (HTTPException 400 ''Query cannot be empty''), st)
          else
            (let (session_id, active) = get_session_id env (rq_session_id request) (active_sessions st);
                 user_context =
                   dict_set
                     (dict_set
                        (dict_merge (case rq_user_context request of Some c \<Rightarrow> c | None \<Rightarrow> [])
                                    (case rq_location request of Some l \<Rightarrow> l | None \<Rightarrow> []))
                        ''session_id'' (VStr session_id))
                     ''timestamp'' (VStr (datetime_now env));
                 (response, m) =
                   coordinator_process_query (coordinator env) query (Some user_context)
                     (coordinator_memory st)
             in case dict_item response ''answer'' of
                  Inl e \<Rightarrow>
                    (Inl (reraise e),
                     \<lparr>active_sessions = active, coordinator_memory = m\<rparr>)
                | Inr answer \<Rightarrow>
                    (let st' = \<lparr>active_sessions = store_query env session_id query answer active,
                                coordinator_memory = m\<rparr>
                     in case query_response env
                               [(''answer'', answer),
                                (''confidence'', dict_get response ''confidence'' (VNum 0.5)),
                                (''language'', dict_get response ''language''
                                   (case rq_language request of Some l \<Rightarrow> VStr l | None \<Rightarrow> VNone)),
                                (''sources'', dict_get response ''sources'' (VList [])),
                                (''recommendations'', dict_get response ''recommendations'' (VList [])),
                                (''follow_up_questions'', dict_get response ''follow_up_questions'' (VList [])),
                                (''processing_time'', dict_get response ''processing_time'' (VNum 0.0)),
                                (''agents_used'', dict_get response ''agents_used'' (VList [])),
                                (''query_type'', dict_get response ''query_type'' (VStr ''general'')),
                                (''urgency'', dict_get response ''urgency'' (VStr ''normal'')),
                                (''session_id'', VStr session_id)] of
                          Inl e \<Rightarrow> (Inl (reraise e), st')
                        | Inr r \<Rightarrow> (Inr r, st'))))"

text \<open>
  \<open>clear_session\<close>: the session's entry is deleted when present, then the coordinator's
  memory is cleared.
\<close>

definition clear_session :: "string \<Rightarrow> handler_state \<Rightarrow> handler_state" where
  "clear_session session_id st =
     \<lparr>active_sessions = (active_sessions st)(session_id := None),
      coordinator_memory = clear_memory (coordinator_memory st)\<rparr>"

section \<open>The agent service (Backend/app/services/ai_agents.py)\<close>

text \<open>
  The service calls a language processor, a location extractor, a sentence-embedding
  model, a knowledge base and four agents, all defined elsewhere; each call may raise.
  \<open>str.lower\<close> is taken from the environment too.  The model covers language
  information whose \<open>language\<close> is a string and agent responses whose \<open>answer\<close> is a
  string; a key that is absent is \<open>None\<close>.
\<close>

record language_info =
  li_language :: "string option"
  li_confidence :: "real option"

record agent_response =
  r_answer :: "string option"
  r_sources :: "pyval option"
  r_confidence :: "pyval option"
  r_suggestions :: "pyval option"

record service_env =
  lp_detect_language :: "string \<Rightarrow> py_exn + language_info"
  lp_translate :: "string \<Rightarrow> string \<Rightarrow> string \<Rightarrow> py_exn + string"
  extract_location :: "string \<Rightarrow> py_exn + string option"
  model_encode :: "string \<Rightarrow> py_exn + real list"
  search_relevant_content :: "string \<Rightarrow> nat \<Rightarrow> py_exn + pyval list"
  agent_process_query ::
    "string \<Rightarrow> string \<Rightarrow> string option \<Rightarrow> pyval list \<Rightarrow> pydict \<Rightarrow> py_exn + agent_response"
  str_lower :: "string \<Rightarrow> string"
  service_elapsed :: real
  service_now :: string

subsection \<open>Keyword tables\<close>

definition weather_keywords :: "string list" where
  "weather_keywords =
     [''weather'',
      ''rain'',
      ''temperature'',
      ''humidity'',
      ''climate'',
      ''monsoon'',
      ''drought'',
      ''frost'',
      [CHR 0xE0, CHR 0xA4, CHR 0xAE, CHR 0xE0, CHR 0xA5, CHR 0x8C, CHR 0xE0, CHR 0xA4, CHR 0xB8, CHR 0xE0, CHR 0xA4, CHR 0xAE],
      [CHR 0xE0, CHR 0xA4, CHR 0xAC, CHR 0xE0, CHR 0xA4, CHR 0xBE, CHR 0xE0, CHR 0xA4, CHR 0xB0, CHR 0xE0, CHR 0xA4, CHR 0xBF, CHR 0xE0, CHR 0xA4, CHR 0xB6],
      [CHR 0xE0, CHR 0xA4, CHR 0xA4, CHR 0xE0, CHR 0xA4, CHR 0xBE, CHR 0xE0, CHR 0xA4, CHR 0xAA, CHR 0xE0, CHR 0xA4, CHR 0xAE, CHR 0xE0, CHR 0xA4, CHR 0xBE, CHR 0xE0, CHR 0xA4, CHR 0xA8]]"

definition crop_keywords :: "string list" where
  "crop_keywords =
     [''crop'',
      ''seed'',
      ''variety'',
      ''planting'',
      ''harvest'',
      ''pest'',
      ''disease'',
      ''fertilizer'',
      [CHR 0xE0, CHR 0xA4, CHR 0xAB, CHR 0xE0, CHR 0xA4, CHR 0xB8, CHR 0xE0, CHR 0xA4, CHR 0xB2],
      [CHR 0xE0, CHR 0xA4, CHR 0xAC, CHR 0xE0, CHR 0xA5, CHR 0x80, CHR 0xE0, CHR 0xA4, CHR 0x9C],
      [CHR 0xE0, CHR 0xA4, CHR 0x96, CHR 0xE0, CHR 0xA4, CHR 0xBE, CHR 0xE0, CHR 0xA4, CHR 0xA6]]"

definition financial_keywords :: "string list" where
  "financial_keywords =
     [''loan'',
      ''credit'',
      ''insurance'',
      ''subsidy'',
      ''price'',
      ''market'',
      ''cost'',
      ''profit'',
      [CHR 0xE0, CHR 0xA4, CHR 0x8B, CHR 0xE0, CHR 0xA4, CHR 0xA3],
      [CHR 0xE0, CHR 0xA4, CHR 0xAC, CHR 0xE0, CHR 0xA5, CHR 0x80, CHR 0xE0, CHR 0xA4, CHR 0xAE, CHR 0xE0, CHR 0xA4, CHR 0xBE],
      [CHR 0xE0, CHR 0xA4, CHR 0xB8, CHR 0xE0, CHR 0xA4, CHR 0xAC, CHR 0xE0, CHR 0xA5, CHR 0x8D, CHR 0xE0, CHR 0xA4, CHR 0xB8, CHR 0xE0, CHR 0xA4, CHR 0xBF, CHR 0xE0, CHR 0xA4, CHR 0xA1, CHR 0xE0, CHR 0xA5, CHR 0x80],
      [CHR 0xE0, CHR 0xA4, CHR 0x95, CHR 0xE0, CHR 0xA5, CHR 0x80, CHR 0xE0, CHR 0xA4, CHR 0xAE, CHR 0xE0, CHR 0xA4, CHR 0xA4]]"

definition policy_keywords :: "string list" where
  "policy_keywords =
     [''scheme'',
      ''policy'',
      ''government'',
      ''yojana'',
      ''PM-KISAN'',
      ''registration'',
      ''application'',
      [CHR 0xE0, CHR 0xA4, CHR 0xAF, CHR 0xE0, CHR 0xA5, CHR 0x8B, CHR 0xE0, CHR 0xA4, CHR 0x9C, CHR 0xE0, CHR 0xA4, CHR 0xA8, CHR 0xE0, CHR 0xA4, CHR 0xBE],
      [CHR 0xE0, CHR 0xA4, CHR 0xB8, CHR 0xE0, CHR 0xA4, CHR 0xB0, CHR 0xE0, CHR 0xA4, CHR 0x95, CHR 0xE0, CHR 0xA4, CHR 0xBE, CHR 0xE0, CHR 0xA4, CHR 0xB0],
      [CHR 0xE0, CHR 0xA4, CHR 0x86, CHR 0xE0, CHR 0xA4, CHR 0xB5, CHR 0xE0, CHR 0xA5, CHR 0x87, CHR 0xE0, CHR 0xA4, CHR 0xA6, CHR 0xE0, CHR 0xA4, CHR 0xA8]]"

text \<open>The dictionary \<open>self.agent_keywords\<close>, in the order its keys are written.\<close>

definition agent_keywords :: "(string \<times> string list) list" where
  "agent_keywords =
     [(''weather'', weather_keywords),
      (''crop'', crop_keywords),
      (''financial'', financial_keywords),
      (''policy'', policy_keywords)]"

definition agent_descriptions :: "(string \<times> string) list" where
  "agent_descriptions =
     [(''weather'', ''weather forecast rain temperature climate conditions''),
      (''crop'', ''agriculture farming crops seeds planting harvesting''),
      (''financial'', ''money loan credit insurance subsidy market prices''),
      (''policy'', ''government schemes policies programs registration'')]"

subsection \<open>\<open>_classify_query\<close>\<close>

text \<open>\<open>keyword in query_lower\<close>: the keyword occurs as a contiguous part of the text.\<close>

fun starts_with :: "string \<Rightarrow> string \<Rightarrow> bool" where
  "starts_with [] s = True"
| "starts_with (k # ks) [] = False"
| "starts_with (k # ks) (c # cs) = (k = c \<and> starts_with ks cs)"

fun str_in :: "string \<Rightarrow> string \<Rightarrow> bool" where
  "str_in keyword [] = (keyword = [])"
| "str_in keyword (c # cs) = (starts_with keyword (c # cs) \<or> str_in keyword cs)"

definition keyword_score :: "string list \<Rightarrow> string \<Rightarrow> nat" where
  "keyword_score keywords query_lower = length (filter (\<lambda>keyword. str_in keyword query_lower) keywords)"

text \<open>The dictionary \<open>scores\<close>: one entry per agent type whose score is positive.\<close>

definition keyword_scores :: "(string \<times> string list) list \<Rightarrow> string \<Rightarrow> (string \<times> nat) list" where
  "keyword_scores table query_lower =
     filter (\<lambda>(agent_type, score). score > 0)
       (map (\<lambda>(agent_type, keywords). (agent_type, keyword_score keywords query_lower)) table)"

text \<open>
  \<open>max(scores, key=scores.get)\<close> walks the keys in order and replaces the current best
  only by a strictly larger value.
\<close>

fun max_from :: "string \<times> nat \<Rightarrow> (string \<times> nat) list \<Rightarrow> string" where
  "max_from best [] = fst best"
| "max_from best (x # xs) = (if snd x > snd best then max_from x xs else max_from best xs)"

text \<open>\<open>np.dot\<close> of two vectors; vectors of different lengths raise.\<close>

definition np_dot :: "real list \<Rightarrow> real list \<Rightarrow> py_exn + real" where
  "np_dot xs ys =
     (if length xs \<noteq> length ys then Inl (ValueError ''shapes not aligned'')
      else Inr (sum_list (map2 (*) xs ys)))"

fun best_match_loop ::
  "service_env \<Rightarrow> real list \<Rightarrow> (string \<times> string) list \<Rightarrow> string \<Rightarrow> real \<Rightarrow> py_exn + string" where
  "best_match_loop env query_embedding [] best_match best_score = Inr best_match"
| "best_match_loop env query_embedding ((agent_type, description) # rest) best_match best_score =
     (case model_encode env description of
        Inl e \<Rightarrow> Inl e
      | Inr desc_embedding \<Rightarrow>
          (case np_dot query_embedding desc_embedding of
             Inl e \<Rightarrow> Inl e
           | Inr similarity \<Rightarrow>
               if similarity > best_score
               then best_match_loop env query_embedding rest agent_type similarity
               else best_match_loop env query_embedding rest best_match best_score))"

definition classify_query :: "service_env \<Rightarrow> string \<Rightarrow> py_exn + string" where
  "classify_query env query =
     (let query_lower = str_lower env query
      in case keyword_scores agent_keywords query_lower of
           x # xs \<Rightarrow> Inr (max_from x xs)
         | [] \<Rightarrow>
             (case model_encode env query of
                Inl e \<Rightarrow> Inl e
              | Inr query_embedding \<Rightarrow>
                  best_match_loop env query_embedding agent_descriptions ''crop'' 0.0))"

subsection \<open>\<open>_get_fallback_response\<close> and \<open>process_query\<close>\<close>

definition fallback_en :: string where
  "fallback_en = ''I apologize, but I'' @ [CHR 0x27] @ ''m having trouble understanding your question right now. Please try rephrasing your agricultural query, and I'' @ [CHR 0x27] @ ''ll do my best to help you.''"

definition fallback_hi :: string where
  "fallback_hi =
    [
     CHR 0xE0, CHR 0xA4, CHR 0xAE, CHR 0xE0, CHR 0xA5, CHR 0x81, CHR 0xE0, CHR 0xA4, CHR 0x9D,
     CHR 0xE0, CHR 0xA5, CHR 0x87, CHR 0x20, CHR 0xE0, CHR 0xA4, CHR 0x96, CHR 0xE0, CHR 0xA5,
     CHR 0x87, CHR 0xE0, CHR 0xA4, CHR 0xA6, CHR 0x20, CHR 0xE0, CHR 0xA4, CHR 0xB9, CHR 0xE0,
     CHR 0xA5, CHR 0x88, CHR 0x2C, CHR 0x20, CHR 0xE0, CHR 0xA4, CHR 0xAE, CHR 0xE0, CHR 0xA5,
     CHR 0x81, CHR 0xE0, CHR 0xA4, CHR 0x9D, CHR 0xE0, CHR 0xA5, CHR 0x87, CHR 0x20, CHR 0xE0,
     CHR 0xA4, CHR 0x85, CHR 0xE0, CHR 0xA4, CHR 0xAD, CHR 0xE0, CHR 0xA5, CHR 0x80, CHR 0x20,
     CHR 0xE0, CHR 0xA4, CHR 0x86, CHR 0xE0, CHR 0xA4, CHR 0xAA, CHR 0xE0, CHR 0xA4, CHR 0x95,
     CHR 0xE0, CHR 0xA4, CHR 0xBE, CHR 0x20, CHR 0xE0, CHR 0xA4, CHR 0xAA, CHR 0xE0, CHR 0xA5,
     CHR 0x8D, CHR 0xE0, CHR 0xA4, CHR 0xB0, CHR 0xE0, CHR 0xA4, CHR 0xB6, CHR 0xE0, CHR 0xA5,
     CHR 0x8D, CHR 0xE0, CHR 0xA4, CHR 0xA8, CHR 0x20, CHR 0xE0, CHR 0xA4, CHR 0xB8, CHR 0xE0,
     CHR 0xA4, CHR 0xAE, CHR 0xE0, CHR 0xA4, CHR 0x9D, CHR 0xE0, CHR 0xA4, CHR 0xA8, CHR 0xE0,
     CHR 0xA5, CHR 0x87, CHR 0x20, CHR 0xE0, CHR 0xA4, CHR 0xAE, CHR 0xE0, CHR 0xA5, CHR 0x87,
     CHR 0xE0, CHR 0xA4, CHR 0x82, CHR 0x20, CHR 0xE0, CHR 0xA4, CHR 0x95, CHR 0xE0, CHR 0xA4,
     CHR 0xA0, CHR 0xE0, CHR 0xA4, CHR 0xBF, CHR 0xE0, CHR 0xA4, CHR 0xA8, CHR 0xE0, CHR 0xA4,
     CHR 0xBE, CHR 0xE0, CHR 0xA4, CHR 0x88, CHR 0x20, CHR 0xE0, CHR 0xA4, CHR 0xB9, CHR 0xE0,
     CHR 0xA5, CHR 0x8B, CHR 0x20, CHR 0xE0, CHR 0xA4, CHR 0xB0, CHR 0xE0, CHR 0xA4, CHR 0xB9,
     CHR 0xE0, CHR 0xA5, CHR 0x80, CHR 0x20, CHR 0xE0, CHR 0xA4, CHR 0xB9, CHR 0xE0, CHR 0xA5,
     CHR 0x88, CHR 0xE0, CHR 0xA5, CHR 0xA4, CHR 0x20, CHR 0xE0, CHR 0xA4, CHR 0x95, CHR 0xE0,
     CHR 0xA5, CHR 0x83, CHR 0xE0, CHR 0xA4, CHR 0xAA, CHR 0xE0, CHR 0xA4, CHR 0xAF, CHR 0xE0,
     CHR 0xA4, CHR 0xBE, CHR 0x20, CHR 0xE0, CHR 0xA4, CHR 0x85, CHR 0xE0, CHR 0xA4, CHR 0xAA,
     CHR 0xE0, CHR 0xA4, CHR 0xA8, CHR 0xE0, CHR 0xA4, CHR 0xBE, CHR 0x20, CHR 0xE0, CHR 0xA4,
     CHR 0x95, CHR 0xE0, CHR 0xA5, CHR 0x83, CHR 0xE0, CHR 0xA4, CHR 0xB7, CHR 0xE0, CHR 0xA4,
     CHR 0xBF, CHR 0x20, CHR 0xE0, CHR 0xA4, CHR 0xB8, CHR 0xE0, CHR 0xA4, CHR 0x82, CHR 0xE0,
     CHR 0xA4, CHR 0xAC, CHR 0xE0, CHR 0xA4, CHR 0x82, CHR 0xE0, CHR 0xA4, CHR 0xA7, CHR 0xE0,
     CHR 0xA5, CHR 0x80, CHR 0x20, CHR 0xE0, CHR 0xA4, CHR 0xAA, CHR 0xE0, CHR 0xA5, CHR 0x8D,
     CHR 0xE0, CHR 0xA4, CHR 0xB0, CHR 0xE0, CHR 0xA4, CHR 0xB6, CHR 0xE0, CHR 0xA5, CHR 0x8D,
     CHR 0xE0, CHR 0xA4, CHR 0xA8, CHR 0x20, CHR 0xE0, CHR 0xA4, CHR 0xA6, CHR 0xE0, CHR 0xA5,
     CHR 0x8B, CHR 0xE0, CHR 0xA4, CHR 0xAC, CHR 0xE0, CHR 0xA4, CHR 0xBE, CHR 0xE0, CHR 0xA4,
     CHR 0xB0, CHR 0xE0, CHR 0xA4, CHR 0xBE, CHR 0x20, CHR 0xE0, CHR 0xA4, CHR 0xAA, CHR 0xE0,
     CHR 0xA5, CHR 0x82, CHR 0xE0, CHR 0xA4, CHR 0x9B, CHR 0xE0, CHR 0xA5, CHR 0x87, CHR 0xE0,
     CHR 0xA4, CHR 0x82, CHR 0x2C, CHR 0x20, CHR 0xE0, CHR 0xA4, CHR 0x94, CHR 0xE0, CHR 0xA4,
     CHR 0xB0, CHR 0x20, CHR 0xE0, CHR 0xA4, CHR 0xAE, CHR 0xE0, CHR 0xA5, CHR 0x88, CHR 0xE0,
     CHR 0xA4, CHR 0x82, CHR 0x20, CHR 0xE0, CHR 0xA4, CHR 0x86, CHR 0xE0, CHR 0xA4, CHR 0xAA,
     CHR 0xE0, CHR 0xA4, CHR 0x95, CHR 0xE0, CHR 0xA5, CHR 0x80, CHR 0x20, CHR 0xE0, CHR 0xA4,
     CHR 0xB8, CHR 0xE0, CHR 0xA4, CHR 0xB9, CHR 0xE0, CHR 0xA4, CHR 0xBE, CHR 0xE0, CHR 0xA4,
     CHR 0xAF, CHR 0xE0, CHR 0xA4, CHR 0xA4, CHR 0xE0, CHR 0xA4, CHR 0xBE, CHR 0x20, CHR 0xE0,
     CHR 0xA4, CHR 0x95, CHR 0xE0, CHR 0xA4, CHR 0xB0, CHR 0xE0, CHR 0xA4, CHR 0xA8, CHR 0xE0,
     CHR 0xA5, CHR 0x87, CHR 0x20, CHR 0xE0, CHR 0xA4, CHR 0x95, CHR 0xE0, CHR 0xA5, CHR 0x80,
     CHR 0x20, CHR 0xE0, CHR 0xA4, CHR 0xAA, CHR 0xE0, CHR 0xA5, CHR 0x82, CHR 0xE0, CHR 0xA4,
     CHR 0xB0, CHR 0xE0, CHR 0xA5, CHR 0x80, CHR 0x20, CHR 0xE0, CHR 0xA4, CHR 0x95, CHR 0xE0,
     CHR 0xA5, CHR 0x8B, CHR 0xE0, CHR 0xA4, CHR 0xB6, CHR 0xE0, CHR 0xA4, CHR 0xBF, CHR 0xE0,
     CHR 0xA4, CHR 0xB6, CHR 0x20, CHR 0xE0, CHR 0xA4, CHR 0x95, CHR 0xE0, CHR 0xA4, CHR 0xB0,
     CHR 0xE0, CHR 0xA5, CHR 0x82, CHR 0xE0, CHR 0xA4, CHR 0x82, CHR 0xE0, CHR 0xA4, CHR 0x97,
     CHR 0xE0, CHR 0xA4, CHR 0xBE, CHR 0xE0, CHR 0xA5, CHR 0xA4]"

definition get_fallback_response :: "string \<Rightarrow> string" where
  "get_fallback_response language =
     dict_get [(''en'', fallback_en), (''hi'', fallback_hi)] language fallback_en"

definition opt_val :: "pyval option \<Rightarrow> pyval \<Rightarrow> pyval" where
  "opt_val v dflt = (case v of Some x \<Rightarrow> x | None \<Rightarrow> dflt)"

text \<open>\<open>language_info.get('language', 'en')\<close> and \<open>language_info.get('confidence', 0.0)\<close>.\<close>

definition info_language :: "language_info \<Rightarrow> string" where
  "info_language info = (case li_language info of Some l \<Rightarrow> l | None \<Rightarrow> ''en'')"

definition info_confidence :: "language_info \<Rightarrow> real" where
  "info_confidence info = (case li_confidence info of Some c \<Rightarrow> c | None \<Rightarrow> 0.0)"

text \<open>
  \<open>self.agents.get(agent_type)\<close>, with the crop agent when the key is unknown; an agent is
  named by its key in \<open>self.agents\<close>.
\<close>

definition agents_keys :: "string list" where
  "agents_keys = [''weather'', ''crop'', ''financial'', ''policy'']"

definition select_agent :: "string \<Rightarrow> string" where
  "select_agent agent_type = (if agent_type \<in> set agents_keys then agent_type else ''crop'')"

text \<open>\<open>context or {}\<close>.\<close>

definition context_or_empty :: "pydict option \<Rightarrow> pydict" where
  "context_or_empty context = (case context of Some c \<Rightarrow> c | None \<Rightarrow> [])"

text \<open>Steps 1 (translation) to 7 of the \<open>try\<close> block, once the language is known.\<close>

definition service_steps ::
  "service_env \<Rightarrow> string \<Rightarrow> string option \<Rightarrow> pydict option \<Rightarrow> string \<Rightarrow> real \<Rightarrow> py_exn + pydict" where
  "service_steps env query location context original_language confidence =
     and_then (if original_language \<noteq> ''en''
               then lp_translate env query original_language ''en'' else Inr query)
       (\<lambda>processed_query.
     and_then (if location = None \<or> location = Some []
               then extract_location env processed_query else Inr location)
       (\<lambda>location.
     and_then (classify_query env processed_query) (\<lambda>agent_type.
     and_then (search_relevant_content env processed_query 5) (\<lambda>context_data.
     and_then (agent_process_query env (select_agent agent_type) processed_query location
                 context_data (context_or_empty context))
       (\<lambda>response.
     and_then (case r_answer response of None \<Rightarrow> Inl (KeyError ''answer'') | Some a \<Rightarrow> Inr a)
       (\<lambda>answer.
     and_then (if original_language \<noteq> ''en''
               then lp_translate env answer ''en'' original_language else Inr answer)
       (\<lambda>final_response.
     Inr [(''answer'', VStr final_response),
          (''original_query'', VStr query),
          (''processed_query'', VStr processed_query),
          (''agent_type'', VStr agent_type),
          (''language'', VStr original_language),
          (''language_confidence'', VNum confidence),
          (''location'', (case location of Some l \<Rightarrow> VStr l | None \<Rightarrow> VNone)),
          (''sources'', opt_val (r_sources response) (VList [])),
          (''confidence_score'', opt_val (r_confidence response) (VNum 0.8)),
          (''processing_time'', VNum (service_elapsed env)),
          (''suggestions'', opt_val (r_suggestions response) (VList [])),
          (''metadata'',
             VDict [(''context_used'', VNum (real (length context_data))),
                    (''agent_confidence'', opt_val (r_confidence response) (VNum 0.0)),
                    (''timestamp'', VStr (service_now env))])])))))))"

definition service_fallback :: "service_env \<Rightarrow> string \<Rightarrow> string \<Rightarrow> py_exn \<Rightarrow> pydict" where
  "service_fallback env query original_language e =
     [(''answer'', VStr (get_fallback_response original_language)),
      (''original_query'', VStr query),
      (''agent_type'', VStr ''fallback''),
      (''language'', VStr original_language),
      (''error'', VStr (exn_str e)),
      (''processing_time'', VNum (service_elapsed env)),
      (''confidence_score'', VNum 0.1)]"

text \<open>
  \<open>AIAgentService.process_query\<close>.  \<open>original_language\<close> is a local variable assigned
  inside the \<open>try\<close>, after \<open>detect_language\<close> has returned; the \<open>except\<close> block reads
  it.  The \<open>try\<close> block therefore hands to the handler, with the exception, the binding
  of \<open>original_language\<close> at the point of the raise (\<open>None\<close>: not yet assigned), and
  reading an unassigned local raises \<open>UnboundLocalError\<close> (a \<open>NameError\<close>), carried here
  with the name of the variable.
\<close>

definition service_try ::
  "service_env \<Rightarrow> string \<Rightarrow> string option \<Rightarrow> pydict option \<Rightarrow> (py_exn \<times> string option) + pydict" where
  "service_try env query location context =
     (case lp_detect_language env query of
        Inl e \<Rightarrow> Inl (e, None)
      | Inr info \<Rightarrow>
          (let original_language = info_language info;
               confidence = info_confidence info
           in case service_steps env query location context original_language confidence of
                Inr result \<Rightarrow> Inr result
              | Inl e \<Rightarrow> Inl (e, Some original_language)))"

definition service_except ::
  "service_env \<Rightarrow> string \<Rightarrow> py_exn \<Rightarrow> string option \<Rightarrow> py_exn + pydict" where
  "service_except env query e original_language =
     (case original_language of
        None \<Rightarrow> Inl (UnboundLocalError ''original_language'')
      | Some l \<Rightarrow> Inr (service_fallback env query l e))"

definition service_process_query ::
  "service_env \<Rightarrow> string \<Rightarrow> string option \<Rightarrow> string option \<Rightarrow> pydict option \<Rightarrow> py_exn + pydict" where
  "service_process_query env query user_id location context =
     (case service_try env query location context of
        Inr result \<Rightarrow> Inr result
      | Inl (e, original_language) \<Rightarrow> service_except env query e original_language)"

section \<open>Properties named by the specification\<close>



text \<open>
  The specification's priority order read on the coordinator's agent names, and the
  specification's apology response: a confidence between 0.1 and 0.2 and an empty list
  of sources.
\<close>

definition spec_priority :: "string list" where
  "spec_priority = [''weather_agent'', ''crop_advisor'', ''finance_agent'', ''pest_disease_agent'']"

definition spec_apology :: "pydict \<Rightarrow> bool" where
  "spec_apology r =
     ((case map_of r ''confidence'' of Some (VNum c) \<Rightarrow> 0.1 \<le> c \<and> c \<le> 0.2 | _ \<Rightarrow> False)
      \<and> map_of r ''sources'' = Some (VList []))"

text \<open>
  The specification's graceful degradation of a failed translation, read on the result of
  the service: the original text was processed as it is and an agent answered.
\<close>

definition spec_proceeds_with_original :: "string \<Rightarrow> pydict \<Rightarrow> bool" where
  "spec_proceeds_with_original query result =
     (map_of result ''processed_query'' = Some (VStr query)
      \<and> map_of result ''agent_type'' \<noteq> Some (VStr ''fallback''))"



text \<open>The capacity \<open>K\<close> the specification gives to a session's context.\<close>

definition spec_capacity :: nat where
  "spec_capacity = 5"

text \<open>Successive requests of one session: lines 104--110 run once per exchange.\<close>

fun store_queries ::
  "handler_env \<Rightarrow> string \<Rightarrow> (string \<times> pyval) list \<Rightarrow> (string \<rightharpoonup> session_data) \<Rightarrow> (string \<rightharpoonup> session_data)" where
  "store_queries env session_id [] active = active"
| "store_queries env session_id ((query, answer) # rest) active =
     store_queries env session_id rest (store_query env session_id query answer active)"

definition query_entry :: "handler_env \<Rightarrow> string \<times> pyval \<Rightarrow> pydict" where
  "query_entry env x =
     [(''query'', VStr (fst x)), (''response'', snd x), (''timestamp'', VStr (datetime_now env))]"

section \<open>Concrete scenarios\<close>

definition ascii_lower :: "string \<Rightarrow> string" where
  "ascii_lower s =
     map (\<lambda>c. let n = (of_char c :: nat) in if 65 \<le> n \<and> n \<le> 90 then char_of (n + 32) else c) s"

definition crop_success :: pydict where
  "crop_success =
     [(''answer'', VStr ''Sow wheat in November''), (''confidence'', VNum 0.7),
      (''sources'', VList [VStr ''ICAR'']), (''recommendations'', VList [VStr ''Test the soil''])]"

definition weather_success :: pydict where
  "weather_success =
     [(''answer'', VStr ''Light rain tomorrow''), (''confidence'', VNum 0.9),
      (''sources'', VList [VStr ''IMD''])]"

definition weather_analysis :: analysis where
  "weather_analysis =
     \<lparr>a_type = Some ''weather'', a_required_agents = Some [''weather_agent''], a_urgency = None\<rparr>"

text \<open>
  A coordinator whose agents all answer, whose synthesis step fails, and whose analysis
  step selects the weather agent alone.
\<close>

definition demo_coordinator :: coordinator_env where
  "demo_coordinator =
     \<lparr>get_advice = (\<lambda>q c. Inr crop_success),
      get_forecast = (\<lambda>q c. Inr weather_success),
      get_financial_advice = (\<lambda>q c. Inr [(''answer'', VStr ''Apply for a crop loan'')]),
      diagnose_and_treat = (\<lambda>q c. Inr [(''answer'', VStr ''Use neem oil'')]),
      detect_language = (\<lambda>q. Inr ''en''),
      translate_to_english = (\<lambda>q. Inl (Exception ''translation provider down'')),
      translate_from_english = (\<lambda>v l. Inr v),
      analysis_completion = (\<lambda>q c. Inr weather_analysis),
      synthesis_completion = (\<lambda>q rs a c. Inl (Exception ''completion failed'')),
      format_response = (\<lambda>d l c. Inr d),
      now_isoformat = ''2024-06-01T10:00:00'',
      elapsed_seconds = 0.25\<rparr>"

definition demo_handler :: handler_env where
  "demo_handler =
     \<lparr>coordinator = demo_coordinator,
      clean_text = (\<lambda>q. Inr q),
      strip_is_empty = (\<lambda>q. q = []),
      query_response = (\<lambda>d. Inr d),
      uuid4 = ''6f1c'',
      datetime_now = ''2024-06-01T10:00:00''\<rparr>"

definition two_sessions :: handler_state where
  "two_sessions =
     \<lparr>active_sessions =
        [''A'' \<mapsto> \<lparr>created_at = ''t0'', queries = [query_entry demo_handler (''qa'', VStr ''ra'')],
                    session_context = []\<rparr>,
         ''B'' \<mapsto> \<lparr>created_at = ''t1'', queries = [query_entry demo_handler (''qb'', VStr ''rb'')],
                    session_context = []\<rparr>],
      coordinator_memory = save_context (save_context [] ''qa'' (VStr ''ra'')) ''qb'' (VStr ''rb'')\<rparr>"

text \<open>
  A service that detects English, whose translation provider is down and whose weather
  agent is the only agent that answers; and the same service detecting Hindi.
\<close>

definition demo_service :: service_env where
  "demo_service =
     \<lparr>lp_detect_language = (\<lambda>q. Inr \<lparr>li_language = Some ''en'', li_confidence = Some 0.99\<rparr>),
      lp_translate = (\<lambda>t src tgt. Inl (Exception ''translation provider down'')),
      extract_location = (\<lambda>q. Inr (Some ''Pune'')),
      model_encode = (\<lambda>t. Inr [0, 0]),
      search_relevant_content = (\<lambda>q n. Inr []),
      agent_process_query = (\<lambda>agent q loc cd uc.
         if agent = ''weather''
         then Inr \<lparr>r_answer = Some ''Light rain tomorrow'', r_sources = Some (VList [VStr ''IMD'']),
                   r_confidence = Some (VNum 0.9), r_suggestions = None\<rparr>
         else Inl (Exception ''agent unavailable'')),
      str_lower = ascii_lower,
      service_elapsed = 0.25,
      service_now = ''2024-06-01T10:00:00''\<rparr>"

definition hindi_service :: service_env where
  "hindi_service =
     demo_service\<lparr>lp_detect_language :=
       (\<lambda>q. Inr \<lparr>li_language = Some ''hi'', li_confidence = Some 0.8\<rparr>)\<rparr>"




text \<open>Two selected agents, both failed.\<close>

definition all_failed :: "(string \<times> pydict) list" where
  "all_failed =
     [(''crop_advisor'', error_dict (Exception ''no data'') ''crop_advisor''),
      (''weather_agent'', error_dict (Exception ''timeout'') ''weather_agent'')]"

text \<open>The crop advisor and the weather agent both selected, both successful.\<close>

definition crop_and_weather :: "(string \<times> pydict) list" where
  "crop_and_weather = [(''crop_advisor'', crop_success), (''weather_agent'', weather_success)]"

section \<open>Dispatch\<close>



text \<open>
  C1.  Every selected agent's outcome is to appear in the mapping under that agent, a
  failed call as a Failure entry for it.  The dispatch files the results by their position
  among the started tasks: when the weather agent is the only agent selected and its call
  fails, its error entry is stored under \<open>crop_advisor\<close> and the mapping has no entry
  for \<open>weather_agent\<close>.
\<close>

theorem route_to_agents_files_failure_under_other_agent:
  "route_to_agents (demo_coordinator\<lparr>get_forecast := (\<lambda>q c. Inl (Exception ''timeout''))\<rparr>)
      ''Will it rain?'' weather_analysis None
   = Inr [(''crop_advisor'', [(''error'', VStr ''timeout''), (''agent'', VStr ''weather_agent'')])]"
  by (simp add: route_to_agents_def selected_def weather_analysis_def demo_coordinator_def
        call_weather_agent_def error_dict_def agent_names_def)






section \<open>Session memory\<close>

text \<open>
  A request of a known session, answered by the coordinator, stores its exchange with
  \<open>store_query\<close>.
\<close>

lemma handler_process_query_stores:
  assumes "clean_text env (rq_query request) = Inr query" and "\<not> strip_is_empty env query"
    and "rq_session_id request = Some sid" and "sid \<noteq> []" and "active_sessions st sid = Some s"
    and "coordinator_process_query (coordinator env) query
           (Some (dict_set (dict_set
              (dict_merge (case rq_user_context request of Some c \<Rightarrow> c | None \<Rightarrow> [])
                          (case rq_location request of Some l \<Rightarrow> l | None \<Rightarrow> []))
              ''session_id'' (VStr sid)) ''timestamp'' (VStr (datetime_now env))))
           (coordinator_memory st) = (response, m)"
    and "dict_item response ''answer'' = Inr answer"
  shows "active_sessions (snd (handler_process_query env request st))
           = store_query env sid query answer (active_sessions st)"
  using assms
  by (simp add: handler_process_query_def get_session_id_def Let_def split: sum.splits)

lemma store_query_appends:
  "active session_id = Some s \<Longrightarrow>
   store_query env session_id query answer active
     = active(session_id \<mapsto> s\<lparr>queries := queries s @ [query_entry env (query, answer)]\<rparr>)"
  by (simp add: store_query_def query_entry_def)

text \<open>
  C7 (as amended).  The list of exchanges of a session in \<open>active_sessions\<close> has no
  capacity: every exchange stored for an existing session is appended after the ones
  already there, and none is evicted.
\<close>

theorem store_queries_keeps_every_exchange:
  "active session_id = Some s \<Longrightarrow>
   store_queries env session_id xs active session_id
     = Some (s\<lparr>queries := queries s @ map (query_entry env) xs\<rparr>)"
proof (induction xs arbitrary: active s)
  case Nil
  then show ?case by simp
next
  case (Cons x xs)
  obtain q a where x: "x = (q, a)" by (cases x)
  let ?s = "s\<lparr>queries := queries s @ [query_entry env (q, a)]\<rparr>"
  have "store_query env session_id q a active session_id = Some ?s"
    using Cons.prems by (simp add: store_query_appends)
  from Cons.IH [of "store_query env session_id q a active" ?s, OF this]
  show ?case by (simp add: x)
qed

theorem store_queries_keeps_every_exchange_witness:
  "active_sessions two_sessions ''B''
     = Some \<lparr>created_at = ''t1'', queries = [query_entry demo_handler (''qb'', VStr ''rb'')],
             session_context = []\<rparr>
   \<and> store_queries demo_handler ''B'' [(''q2'', VStr ''r2'')] (active_sessions two_sessions) ''B''
     = Some \<lparr>created_at = ''t1'',
             queries = [query_entry demo_handler (''qb'', VStr ''rb''),
                        query_entry demo_handler (''q2'', VStr ''r2'')],
             session_context = []\<rparr>"
proof -
  have h: "active_sessions two_sessions ''B''
     = Some \<lparr>created_at = ''t1'', queries = [query_entry demo_handler (''qb'', VStr ''rb'')],
             session_context = []\<rparr>"
    by (simp add: two_sessions_def)
  show ?thesis
    using h store_queries_keeps_every_exchange
              [where active = "active_sessions two_sessions" and session_id = "''B''"
                 and env = demo_handler and xs = "[(''q2'', VStr ''r2'')]", OF h]
    by simp
qed

text \<open>
  C7 as stated fails: session \<open>A\<close> holds one exchange, and after five more it holds six,
  which is more than the capacity of five.
\<close>

theorem session_capacity_counterexample:
  "\<not> length (queries (the (store_queries demo_handler ''A''
          [(''q2'', VStr ''r2''), (''q3'', VStr ''r3''), (''q4'', VStr ''r4''),
           (''q5'', VStr ''r5''), (''q6'', VStr ''r6'')]
          (active_sessions two_sessions) ''A''))) \<le> spec_capacity"
  by (simp add: two_sessions_def store_query_def spec_capacity_def)

lemma clear_session_frame:
  "s \<noteq> session_id \<Longrightarrow> active_sessions (clear_session session_id st) s = active_sessions st s"
  by (simp add: clear_session_def)

text \<open>
  C9.  Clearing one session is to leave every other session's context unchanged.  The
  entry of another session in \<open>active_sessions\<close> is kept, but the coordinator's memory is
  one memory for all sessions and \<open>clear_session\<close> empties it: with sessions \<open>A\<close> and \<open>B\<close>
  both having an exchange in the memory, clearing \<open>A\<close> also removes the exchange of \<open>B\<close>.
\<close>

theorem clear_session_wipes_other_sessions_memory:
  "coordinator_memory two_sessions = [(''qa'', VStr ''ra''), (''qb'', VStr ''rb'')]
   \<and> coordinator_memory (clear_session ''A'' two_sessions) = []
   \<and> active_sessions (clear_session ''A'' two_sessions) ''A'' = None
   \<and> active_sessions (clear_session ''A'' two_sessions) ''B'' = active_sessions two_sessions ''B''"
  by (simp add: two_sessions_def clear_session_def clear_memory_def save_context_def)

section \<open>The service's error handler\<close>

text \<open>
  C10.  The fallback dictionary of the service is only returned for exceptions raised
  after the language was detected: when \<open>detect_language\<close> itself raises, the handler
  reads the unassigned \<open>original_language\<close> and \<open>process_query\<close> raises
  \<open>UnboundLocalError\<close> instead of returning a response; and whenever \<open>process_query\<close>
  returns a response, the detection had succeeded.
\<close>

theorem fallback_needs_detected_language:
  "(lp_detect_language env query = Inl e \<longrightarrow>
      service_process_query env query user_id location context
        = Inl (UnboundLocalError ''original_language''))
   \<and> (service_process_query env query user_id location context = Inr r \<longrightarrow>
      (\<exists>info. lp_detect_language env query = Inr info))"
  by (auto simp: service_process_query_def service_try_def service_except_def Let_def
           split: sum.splits option.splits prod.splits)

theorem fallback_needs_detected_language_witness:
  "lp_detect_language (demo_service\<lparr>lp_detect_language := (\<lambda>q. Inl (Exception ''detector down''))\<rparr>)
      ''Will it rain?'' = Inl (Exception ''detector down'')
   \<and> service_process_query (demo_service\<lparr>lp_detect_language := (\<lambda>q. Inl (Exception ''detector down''))\<rparr>)
        ''Will it rain?'' None None None = Inl (UnboundLocalError ''original_language'')
   \<and> service_process_query hindi_service ''kya kal barish hogi'' None None None
        = Inr (service_fallback hindi_service ''kya kal barish hogi'' ''hi''
                 (Exception ''translation provider down''))
   \<and> (\<exists>info. lp_detect_language hindi_service ''kya kal barish hogi'' = Inr info)"
proof -
  have r: "service_process_query hindi_service ''kya kal barish hogi'' None None None
        = Inr (service_fallback hindi_service ''kya kal barish hogi'' ''hi''
                 (Exception ''translation provider down''))"
    by (simp add: service_process_query_def service_try_def service_except_def service_steps_def
        and_then_def hindi_service_def demo_service_def info_language_def)
  show ?thesis
    using r fallback_needs_detected_language
          [of "demo_service\<lparr>lp_detect_language := (\<lambda>q. Inl (Exception ''detector down''))\<rparr>"
              "''Will it rain?''" "Exception ''detector down''" None None None]
      fallback_needs_detected_language
          [of hindi_service "''kya kal barish hogi''" _ None None None
              "service_fallback hindi_service ''kya kal barish hogi'' ''hi''
                 (Exception ''translation provider down'')"]
    by simp
qed

section \<open>Classification\<close>










section \<open>Synthesis and fallbacks\<close>

lemma first_by_priority_all_failed:
  "\<forall>r \<in> set (dict_values rs). dict_has r ''error'' \<Longrightarrow> first_by_priority ps rs = None"
proof (induction ps)
  case Nil
  then show ?case by simp
next
  case (Cons p ps)
  then show ?case
    by (auto simp: dict_values_def split: option.splits dest!: map_of_SomeD)
qed

lemma get_best_all_failed:
  "\<forall>r \<in> set (dict_values rs). dict_has r ''error'' \<Longrightarrow> get_best_agent_response rs = no_valid_response"
proof -
  assume a: "\<forall>r \<in> set (dict_values rs). dict_has r ''error''"
  then have "List.find (\<lambda>response. \<not> dict_has response ''error'') (dict_values rs) = None"
    by (simp add: find_None_iff)
  then show ?thesis
    by (simp add: get_best_agent_response_def first_by_priority_all_failed [OF a])
qed

lemma synthesize_fallback:
  "\<forall>d. synthesis_completion env query rs a context \<noteq> Inr (VDict d) \<Longrightarrow>
   synthesize_responses env query rs a context =
     [(''answer'', dict_get (get_best_agent_response rs) ''answer'' (VStr synth_default_answer)),
      (''confidence'', VNum 0.5),
      (''sources'', dict_get (get_best_agent_response rs) ''sources'' (VList [])),
      (''key_recommendations'', dict_get (get_best_agent_response rs) ''recommendations'' (VList [])),
      (''caveats'', VList [VStr ''Fallback response due to synthesis error'']),
      (''follow_up_questions'', VList [])]"
  by (auto simp: synthesize_responses_def Let_def split: sum.splits pyval.splits)

lemma service_steps_raise:
  assumes "lp_detect_language senv q = Inr info"
    and "service_steps senv q location context (info_language info) (info_confidence info) = Inl e"
  shows "service_process_query senv q user_id location context = Inr (service_fallback senv q (info_language info) e)"
  using assms
  by (simp add: service_process_query_def service_try_def service_except_def Let_def)

lemma service_steps_agent_raises:
  assumes "(if lang \<noteq> ''en'' then lp_translate senv q lang ''en'' else Inr q) = Inr pq"
    and "(if location = None \<or> location = Some [] then extract_location senv pq else Inr location) = Inr loc"
    and "classify_query senv pq = Inr agent_type"
    and "search_relevant_content senv pq 5 = Inr cd"
    and "agent_process_query senv (select_agent agent_type) pq loc cd (context_or_empty context) = Inl e"
  shows "service_steps senv q location context lang conf = Inl e"
  using assms by (simp add: service_steps_def and_then_def)

lemma demo_classify_crop: "classify_query demo_service ''My crop has a disease'' = Inr ''crop''"
  by code_simp

text \<open>
  C3 (as amended).  In the coordinator, when every agent response carries an error and
  the synthesis generation step fails as well, the synthesized response is fixed: the
  answer \<open>No valid response available\<close>, confidence 0.5 and no sources.  In the service,
  when the call of the selected agent raises, the response is the fixed fallback in the
  detected language with \<open>confidence_score\<close> 0.1 and no \<open>sources\<close> key.
\<close>

theorem all_agents_failed_response:
  assumes "\<forall>r \<in> set (dict_values agent_responses). dict_has r ''error''"
    and "\<forall>d. synthesis_completion env query agent_responses a context \<noteq> Inr (VDict d)"
    and "lp_detect_language senv q = Inr info"
    and "(if info_language info \<noteq> ''en'' then lp_translate senv q (info_language info) ''en''
          else Inr q) = Inr pq"
    and "(if location = None \<or> location = Some [] then extract_location senv pq
          else Inr location) = Inr loc"
    and "classify_query senv pq = Inr agent_type"
    and "search_relevant_content senv pq 5 = Inr cd"
    and "agent_process_query senv (select_agent agent_type) pq loc cd (context_or_empty ctx) = Inl e"
  shows "synthesize_responses env query agent_responses a context =
           [(''answer'', VStr ''No valid response available''),
            (''confidence'', VNum 0.5),
            (''sources'', VList []),
            (''key_recommendations'', VList []),
            (''caveats'', VList [VStr ''Fallback response due to synthesis error'']),
            (''follow_up_questions'', VList [])]
       \<and> service_process_query senv q user_id location ctx =
           Inr [(''answer'', VStr (get_fallback_response (info_language info))),
                (''original_query'', VStr q),
                (''agent_type'', VStr ''fallback''),
                (''language'', VStr (info_language info)),
                (''error'', VStr (exn_str e)),
                (''processing_time'', VNum (service_elapsed senv)),
                (''confidence_score'', VNum 0.1)]"
proof -
  have "get_best_agent_response agent_responses = no_valid_response"
    using assms(1) by (rule get_best_all_failed)
  then have front: "synthesize_responses env query agent_responses a context =
           [(''answer'', VStr ''No valid response available''),
            (''confidence'', VNum 0.5),
            (''sources'', VList []),
            (''key_recommendations'', VList []),
            (''caveats'', VList [VStr ''Fallback response due to synthesis error'']),
            (''follow_up_questions'', VList [])]"
    using synthesize_fallback [OF assms(2)] by (simp add: no_valid_response_def dict_get_def)
  have "service_steps senv q location ctx (info_language info) (info_confidence info) = Inl e"
    using assms(4-8) by (rule service_steps_agent_raises)
  then have "service_process_query senv q user_id location ctx
               = Inr (service_fallback senv q (info_language info) e)"
    using assms(3) by (simp add: service_steps_raise)
  then show ?thesis using front by (simp add: service_fallback_def)
qed

theorem all_agents_failed_response_witness:
  "synthesize_responses demo_coordinator ''Will it rain?'' all_failed weather_analysis None =
           [(''answer'', VStr ''No valid response available''),
            (''confidence'', VNum 0.5),
            (''sources'', VList []),
            (''key_recommendations'', VList []),
            (''caveats'', VList [VStr ''Fallback response due to synthesis error'']),
            (''follow_up_questions'', VList [])]
   \<and> service_process_query demo_service ''My crop has a disease'' None None None =
           Inr [(''answer'', VStr fallback_en),
                (''original_query'', VStr ''My crop has a disease''),
                (''agent_type'', VStr ''fallback''),
                (''language'', VStr ''en''),
                (''error'', VStr ''agent unavailable''),
                (''processing_time'', VNum 0.25),
                (''confidence_score'', VNum 0.1)]"
proof -
  let ?info = "\<lparr>li_language = Some ''en'', li_confidence = Some 0.99\<rparr>"
  have h1: "\<forall>r \<in> set (dict_values all_failed). dict_has r ''error''"
    by (simp add: all_failed_def dict_values_def error_dict_def dict_has_def)
  have h2: "\<forall>d. synthesis_completion demo_coordinator ''Will it rain?'' all_failed weather_analysis None
               \<noteq> Inr (VDict d)"
    by (simp add: demo_coordinator_def)
  have h3: "lp_detect_language demo_service ''My crop has a disease'' = Inr ?info"
    by (simp add: demo_service_def)
  have lang: "info_language ?info = ''en''" by (simp add: info_language_def)
  have h4: "(if info_language ?info \<noteq> ''en''
             then lp_translate demo_service ''My crop has a disease'' (info_language ?info) ''en''
             else Inr ''My crop has a disease'') = Inr ''My crop has a disease''"
    by (simp add: info_language_def)
  have h5: "(if (None::string option) = None \<or> None = Some []
             then extract_location demo_service ''My crop has a disease''
             else Inr None) = Inr (Some ''Pune'')"
    by (simp add: demo_service_def)
  have h7: "search_relevant_content demo_service ''My crop has a disease'' 5 = Inr []"
    by (simp add: demo_service_def)
  have h8: "agent_process_query demo_service (select_agent ''crop'') ''My crop has a disease''
              (Some ''Pune'') [] (context_or_empty None) = Inl (Exception ''agent unavailable'')"
    by (simp add: demo_service_def select_agent_def agents_keys_def)
  have el: "service_elapsed demo_service = 0.25" by (simp add: demo_service_def)
  show ?thesis
    using all_agents_failed_response [OF h1 h2 h3 h4 h5 demo_classify_crop h7 h8, of None]
    by (simp add: info_language_def get_fallback_response_def dict_get_def el)
qed

text \<open>
  C3 as stated fails: with both selected agents failed and the generation step failing,
  the confidence of the synthesized response is 0.5, outside the range from 0.1 to 0.2.
\<close>

theorem all_agents_failed_counterexample:
  "\<not> spec_apology (synthesize_responses demo_coordinator ''Will it rain?'' all_failed weather_analysis None)"
  by (simp add: spec_apology_def synthesize_responses_def demo_coordinator_def all_failed_def
        get_best_agent_response_def priority_def error_dict_def dict_has_def dict_values_def
        no_valid_response_def dict_get_def)

lemma first_by_priority_first_valid:
  assumes "map_of rs agent = Some r" and "\<not> dict_has r ''error''"
    and "\<forall>p \<in> set pre. case map_of rs p of None \<Rightarrow> True | Some r' \<Rightarrow> dict_has r' ''error''"
  shows "first_by_priority (pre @ agent # post) rs = Some r"
  using assms by (induction pre) (auto split: option.splits)

text \<open>
  C5 (as amended).  When the synthesis generation step raises or does not yield a JSON
  object, the synthesizer returns a response and does not raise: it is built from the
  first agent, in the order crop advisor, weather agent, finance agent, pest and disease
  agent, whose response carries no error, with that response's answer, sources and
  recommendations and the fixed confidence 0.5.
\<close>

theorem synthesis_failure_falls_back_by_priority:
  assumes "\<forall>d. synthesis_completion env query rs a context \<noteq> Inr (VDict d)"
    and "priority = pre @ agent # post"
    and "map_of rs agent = Some r" and "\<not> dict_has r ''error''"
    and "\<forall>p \<in> set pre. case map_of rs p of None \<Rightarrow> True | Some r' \<Rightarrow> dict_has r' ''error''"
  shows "priority = [''crop_advisor'', ''weather_agent'', ''finance_agent'', ''pest_disease_agent'']
       \<and> get_best_agent_response rs = r
       \<and> synthesize_responses env query rs a context =
           [(''answer'', dict_get r ''answer'' (VStr synth_default_answer)),
            (''confidence'', VNum 0.5),
            (''sources'', dict_get r ''sources'' (VList [])),
            (''key_recommendations'', dict_get r ''recommendations'' (VList [])),
            (''caveats'', VList [VStr ''Fallback response due to synthesis error'']),
            (''follow_up_questions'', VList [])]"
proof -
  have "first_by_priority priority rs = Some r"
    unfolding assms(2) using assms(3-5) by (rule first_by_priority_first_valid)
  then have best: "get_best_agent_response rs = r"
    by (simp add: get_best_agent_response_def)
  show ?thesis
    using synthesize_fallback [OF assms(1)] best by (simp add: priority_def)
qed

theorem synthesis_failure_falls_back_by_priority_witness:
  "get_best_agent_response [(''crop_advisor'', error_dict (Exception ''no data'') ''crop_advisor''),
                            (''weather_agent'', weather_success)] = weather_success
   \<and> synthesize_responses demo_coordinator ''Will it rain?''
        [(''crop_advisor'', error_dict (Exception ''no data'') ''crop_advisor''),
         (''weather_agent'', weather_success)] weather_analysis None =
           [(''answer'', VStr ''Light rain tomorrow''),
            (''confidence'', VNum 0.5),
            (''sources'', VList [VStr ''IMD'']),
            (''key_recommendations'', VList []),
            (''caveats'', VList [VStr ''Fallback response due to synthesis error'']),
            (''follow_up_questions'', VList [])]"
proof -
  let ?rs = "[(''crop_advisor'', error_dict (Exception ''no data'') ''crop_advisor''),
              (''weather_agent'', weather_success)]"
  have h1: "\<forall>d. synthesis_completion demo_coordinator ''Will it rain?'' ?rs weather_analysis None
               \<noteq> Inr (VDict d)"
    by (simp add: demo_coordinator_def)
  have h2: "priority = [''crop_advisor''] @ ''weather_agent'' # [''finance_agent'', ''pest_disease_agent'']"
    by (simp add: priority_def)
  have h3: "map_of ?rs ''weather_agent'' = Some weather_success" by simp
  have h4: "\<not> dict_has weather_success ''error''"
    by (simp add: dict_has_def weather_success_def)
  have h5: "\<forall>p \<in> set [''crop_advisor''].
              case map_of ?rs p of None \<Rightarrow> True | Some r' \<Rightarrow> dict_has r' ''error''"
    by (simp add: dict_has_def error_dict_def)
  show ?thesis
    using synthesis_failure_falls_back_by_priority [OF h1 h2 h3 h4 h5]
    by (simp add: dict_get_def weather_success_def)
qed

text \<open>
  C5 as stated fails: with a successful crop advisor and a successful weather agent the
  specification's order picks the weather agent's result, the fallback the crop advisor's.
\<close>

theorem synthesis_fallback_priority_counterexample:
  "first_by_priority spec_priority crop_and_weather = Some weather_success
   \<and> get_best_agent_response crop_and_weather = crop_success
   \<and> dict_get (synthesize_responses demo_coordinator ''Will it rain on my wheat?''
                  crop_and_weather weather_analysis None) ''answer'' VNone
       \<noteq> dict_get weather_success ''answer'' VNone"
  by (simp add: spec_priority_def crop_and_weather_def get_best_agent_response_def priority_def
        dict_has_def crop_success_def weather_success_def synthesize_responses_def
        demo_coordinator_def dict_get_def)

lemma first_by_priority_SomeD:
  "first_by_priority ps rs = Some r \<Longrightarrow> \<exists>a. (a, r) \<in> set rs \<and> \<not> dict_has r ''error''"
  by (induction ps) (auto split: option.splits if_splits dest: map_of_SomeD)

lemma get_best_single_success:
  assumes "filter (\<lambda>x. \<not> dict_has (snd x) ''error'') rs = [(name, r)]"
  shows "get_best_agent_response rs = r"
proof -
  have only: "r' = r" if "(a, r') \<in> set rs" and "\<not> dict_has r' ''error''" for a r'
  proof -
    have "(a, r') \<in> set (filter (\<lambda>x. \<not> dict_has (snd x) ''error'') rs)" using that by simp
    then show ?thesis unfolding assms by simp
  qed
  have "(name, r) \<in> set (filter (\<lambda>x. \<not> dict_has (snd x) ''error'') rs)" unfolding assms by simp
  then have mem: "(name, r) \<in> set rs" and ok: "\<not> dict_has r ''error''" by simp_all
  show ?thesis
  proof (cases "first_by_priority priority rs")
    case (Some r')
    then have "r' = r" using first_by_priority_SomeD only by blast
    then show ?thesis using Some by (simp add: get_best_agent_response_def)
  next
    case None
    have "r \<in> set (dict_values rs)" using mem by (force simp: dict_values_def)
    then have "List.find (\<lambda>response. \<not> dict_has response ''error'') (dict_values rs) \<noteq> None"
      using ok by (auto simp: find_None_iff)
    then obtain r' where f: "List.find (\<lambda>response. \<not> dict_has response ''error'') (dict_values rs) = Some r'"
      by blast
    then have "r' \<in> set (dict_values rs)" and "\<not> dict_has r' ''error''"
      by (auto simp: find_Some_iff)
    then have "r' = r" using only by (auto simp: dict_values_def)
    then show ?thesis using None f by (simp add: get_best_agent_response_def)
  qed
qed

lemma service_steps_success:
  assumes "(if lang \<noteq> ''en'' then lp_translate senv q lang ''en'' else Inr q) = Inr pq"
    and "(if location = None \<or> location = Some [] then extract_location senv pq else Inr location) = Inr loc"
    and "classify_query senv pq = Inr agent_type"
    and "search_relevant_content senv pq 5 = Inr cd"
    and "agent_process_query senv (select_agent agent_type) pq loc cd (context_or_empty context) = Inr response"
    and "r_answer response = Some answer"
    and "(if lang \<noteq> ''en'' then lp_translate senv answer ''en'' lang else Inr answer) = Inr final"
  shows "service_steps senv q location context lang conf =
     Inr [(''answer'', VStr final),
          (''original_query'', VStr q),
          (''processed_query'', VStr pq),
          (''agent_type'', VStr agent_type),
          (''language'', VStr lang),
          (''language_confidence'', VNum conf),
          (''location'', (case loc of Some l \<Rightarrow> VStr l | None \<Rightarrow> VNone)),
          (''sources'', opt_val (r_sources response) (VList [])),
          (''confidence_score'', opt_val (r_confidence response) (VNum 0.8)),
          (''processing_time'', VNum (service_elapsed senv)),
          (''suggestions'', opt_val (r_suggestions response) (VList [])),
          (''metadata'',
             VDict [(''context_used'', VNum (real (length cd))),
                    (''agent_confidence'', opt_val (r_confidence response) (VNum 0.0)),
                    (''timestamp'', VStr (service_now senv))])]"
  using assms by (simp add: service_steps_def and_then_def)

text \<open>
  C4 (as amended).  In the service, the response of the selected agent is passed through:
  its sources, its suggestions and its confidence are copied unchanged (0.8 when the
  agent gave no confidence), and its answer is returned as it is for an English query
  and translated otherwise.  In the coordinator, when exactly one agent response carries
  no error and the synthesis generation step fails, that response's answer, sources and
  recommendations are passed through, and the confidence is the fixed 0.5.
\<close>

theorem single_success_passes_through:
  assumes "lp_detect_language senv q = Inr info"
    and "(if info_language info \<noteq> ''en'' then lp_translate senv q (info_language info) ''en''
          else Inr q) = Inr pq"
    and "(if location = None \<or> location = Some [] then extract_location senv pq
          else Inr location) = Inr loc"
    and "classify_query senv pq = Inr agent_type"
    and "search_relevant_content senv pq 5 = Inr cd"
    and "agent_process_query senv (select_agent agent_type) pq loc cd (context_or_empty ctx)
          = Inr response"
    and "r_answer response = Some answer"
    and "(if info_language info \<noteq> ''en'' then lp_translate senv answer ''en'' (info_language info)
          else Inr answer) = Inr final"
    and "filter (\<lambda>x. \<not> dict_has (snd x) ''error'') agent_responses = [(name, r)]"
    and "\<forall>d. synthesis_completion env query agent_responses a context \<noteq> Inr (VDict d)"
  shows "(info_language info = ''en'' \<longrightarrow> final = answer)
       \<and> (\<exists>result. service_process_query senv q user_id location ctx = Inr result
            \<and> map_of result ''answer'' = Some (VStr final)
            \<and> map_of result ''sources'' = Some (opt_val (r_sources response) (VList []))
            \<and> map_of result ''confidence_score'' = Some (opt_val (r_confidence response) (VNum 0.8))
            \<and> map_of result ''suggestions'' = Some (opt_val (r_suggestions response) (VList [])))
       \<and> synthesize_responses env query agent_responses a context =
           [(''answer'', dict_get r ''answer'' (VStr synth_default_answer)),
            (''confidence'', VNum 0.5),
            (''sources'', dict_get r ''sources'' (VList [])),
            (''key_recommendations'', dict_get r ''recommendations'' (VList [])),
            (''caveats'', VList [VStr ''Fallback response due to synthesis error'']),
            (''follow_up_questions'', VList [])]"
proof -
  have "service_process_query senv q user_id location ctx =
          service_steps senv q location ctx (info_language info) (info_confidence info)"
    using assms(1) service_steps_success [OF assms(2-8)]
    by (simp add: service_process_query_def service_try_def Let_def)
  then have res: "\<exists>result. service_process_query senv q user_id location ctx = Inr result
            \<and> map_of result ''answer'' = Some (VStr final)
            \<and> map_of result ''sources'' = Some (opt_val (r_sources response) (VList []))
            \<and> map_of result ''confidence_score'' = Some (opt_val (r_confidence response) (VNum 0.8))
            \<and> map_of result ''suggestions'' = Some (opt_val (r_suggestions response) (VList []))"
    using service_steps_success [OF assms(2-8)] by simp
  have "get_best_agent_response agent_responses = r"
    using assms(9) by (rule get_best_single_success)
  moreover have "info_language info = ''en'' \<longrightarrow> final = answer"
    using assms(8) by auto
  ultimately show ?thesis using res synthesize_fallback [OF assms(10)] by simp
qed

lemma demo_classify_weather: "classify_query demo_service ''Will it rain tomorrow?'' = Inr ''weather''"
  by code_simp

theorem single_success_passes_through_witness:
  "(\<exists>result. service_process_query demo_service ''Will it rain tomorrow?'' None None None = Inr result
            \<and> map_of result ''answer'' = Some (VStr ''Light rain tomorrow'')
            \<and> map_of result ''sources'' = Some (VList [VStr ''IMD''])
            \<and> map_of result ''confidence_score'' = Some (VNum 0.9)
            \<and> map_of result ''suggestions'' = Some (VList []))
   \<and> synthesize_responses demo_coordinator ''Will it rain?''
        [(''crop_advisor'', weather_success)] weather_analysis None =
           [(''answer'', VStr ''Light rain tomorrow''),
            (''confidence'', VNum 0.5),
            (''sources'', VList [VStr ''IMD'']),
            (''key_recommendations'', VList []),
            (''caveats'', VList [VStr ''Fallback response due to synthesis error'']),
            (''follow_up_questions'', VList [])]"
proof -
  let ?q = "''Will it rain tomorrow?''"
  let ?info = "\<lparr>li_language = Some ''en'', li_confidence = Some 0.99\<rparr>"
  let ?resp = "\<lparr>r_answer = Some ''Light rain tomorrow'', r_sources = Some (VList [VStr ''IMD'']),
                r_confidence = Some (VNum 0.9), r_suggestions = None\<rparr>"
  let ?rs = "[(''crop_advisor'', weather_success)]"
  have h1: "lp_detect_language demo_service ?q = Inr ?info" by (simp add: demo_service_def)
  have h2: "(if info_language ?info \<noteq> ''en''
             then lp_translate demo_service ?q (info_language ?info) ''en'' else Inr ?q) = Inr ?q"
    by (simp add: info_language_def)
  have h3: "(if (None::string option) = None \<or> None = Some []
             then extract_location demo_service ?q else Inr None) = Inr (Some ''Pune'')"
    by (simp add: demo_service_def)
  have h5: "search_relevant_content demo_service ?q 5 = Inr []" by (simp add: demo_service_def)
  have h6: "agent_process_query demo_service (select_agent ''weather'') ?q (Some ''Pune'') []
              (context_or_empty None) = Inr ?resp"
    by (simp add: demo_service_def select_agent_def agents_keys_def)
  have h7: "r_answer ?resp = Some ''Light rain tomorrow''" by simp
  have h8: "(if info_language ?info \<noteq> ''en''
             then lp_translate demo_service ''Light rain tomorrow'' ''en'' (info_language ?info)
             else Inr ''Light rain tomorrow'') = Inr ''Light rain tomorrow''"
    by (simp add: info_language_def)
  have h9: "filter (\<lambda>x. \<not> dict_has (snd x) ''error'') ?rs = [(''crop_advisor'', weather_success)]"
    by (simp add: dict_has_def weather_success_def)
  have h10: "\<forall>d. synthesis_completion demo_coordinator ''Will it rain?'' ?rs weather_analysis None
               \<noteq> Inr (VDict d)"
    by (simp add: demo_coordinator_def)
  show ?thesis
    using single_success_passes_through [OF h1 h2 h3 demo_classify_weather h5 h6 h7 h8 h9 h10, of None]
    by (simp add: opt_val_def dict_get_def weather_success_def)
qed

text \<open>
  C4 as stated fails: a single successful weather result of confidence 0.9 is synthesized,
  when the generation step fails, into a response of confidence 0.5.
\<close>

theorem single_success_confidence_counterexample:
  "route_to_agents demo_coordinator ''Will it rain?'' weather_analysis None
     = Inr [(''crop_advisor'', weather_success)]
   \<and> dict_get weather_success ''confidence'' VNone = VNum 0.9
   \<and> dict_get (synthesize_responses demo_coordinator ''Will it rain?''
                  [(''crop_advisor'', weather_success)] weather_analysis None) ''confidence'' VNone
       \<noteq> VNum 0.9"
  by (simp add: route_to_agents_def selected_def weather_analysis_def demo_coordinator_def
        call_weather_agent_def agent_names_def synthesize_responses_def dict_get_def
        weather_success_def Let_def)

section \<open>Translation failures\<close>

lemma answer_query_translation_raises:
  assumes "detect_language env query = Inr lang" and "lang \<noteq> ''en''"
    and "translate_to_english env query = Inl e"
  shows "answer_query env query user_context = Inl e"
  using assms by (simp add: answer_query_def and_then_def)

text \<open>
  C6 (as amended).  When the translation of the query raises, neither pipeline goes on
  with the original text.  The service returns its fallback response in the detected
  language (agent type \<open>fallback\<close>, no processed query), and the coordinator returns its
  fixed error response and leaves the memory as it was; no agent is consulted and
  nothing is raised to the caller.
\<close>

theorem translation_failure_gives_fallback:
  assumes "lp_detect_language senv q = Inr info" and "info_language info \<noteq> ''en''"
    and "lp_translate senv q (info_language info) ''en'' = Inl e"
    and "detect_language env query = Inr lang" and "lang \<noteq> ''en''"
    and "translate_to_english env query = Inl e'"
  shows "service_process_query senv q user_id location context
           = Inr (service_fallback senv q (info_language info) e)
       \<and> \<not> spec_proceeds_with_original q (service_fallback senv q (info_language info) e)
       \<and> coordinator_process_query env query user_context m = (error_response e', m)"
proof -
  have "service_steps senv q location context (info_language info) (info_confidence info) = Inl e"
    using assms(2,3) by (simp add: service_steps_def and_then_def)
  then have "service_process_query senv q user_id location context
           = Inr (service_fallback senv q (info_language info) e)"
    using assms(1) by (rule service_steps_raise [rotated])
  moreover have "\<not> spec_proceeds_with_original q (service_fallback senv q (info_language info) e)"
    by (simp add: spec_proceeds_with_original_def service_fallback_def)
  moreover have "coordinator_process_query env query user_context m = (error_response e', m)"
    using answer_query_translation_raises [OF assms(4-6)]
    by (simp add: coordinator_process_query_def)
  ultimately show ?thesis by simp
qed

theorem translation_failure_gives_fallback_witness:
  "service_process_query hindi_service ''kya kal barish hogi'' (Some ''u1'') None None
     = Inr (service_fallback hindi_service ''kya kal barish hogi'' ''hi''
              (Exception ''translation provider down''))
   \<and> coordinator_process_query
        (demo_coordinator\<lparr>detect_language := (\<lambda>q. Inr ''hi'')\<rparr>) ''kya kal barish hogi'' None []
     = (error_response (Exception ''translation provider down''), [])"
proof -
  let ?info = "\<lparr>li_language = Some ''hi'', li_confidence = Some 0.8\<rparr>"
  let ?env = "demo_coordinator\<lparr>detect_language := (\<lambda>q. Inr ''hi'')\<rparr>"
  have h1: "lp_detect_language hindi_service ''kya kal barish hogi'' = Inr ?info"
    by (simp add: hindi_service_def)
  have h2: "info_language ?info \<noteq> ''en''" by (simp add: info_language_def)
  have h3: "lp_translate hindi_service ''kya kal barish hogi'' (info_language ?info) ''en''
              = Inl (Exception ''translation provider down'')"
    by (simp add: hindi_service_def demo_service_def)
  have h4: "detect_language ?env ''kya kal barish hogi'' = Inr ''hi''" by simp
  have h5: "''hi'' \<noteq> ''en''" by simp
  have h6: "translate_to_english ?env ''kya kal barish hogi''
              = Inl (Exception ''translation provider down'')"
    by (simp add: demo_coordinator_def)
  show ?thesis
    using translation_failure_gives_fallback [OF h1 h2 h3 h4 h5 h6, of "Some ''u1''" None None None "[]"]
    by (simp add: info_language_def)
qed

text \<open>
  C6 as stated fails: for a query detected as Hindi whose translation raises, the service
  answers with the fallback and has not processed the original text.
\<close>

theorem translation_failure_counterexample:
  "service_process_query hindi_service ''kya kal barish hogi'' None None None
     = Inr (service_fallback hindi_service ''kya kal barish hogi'' ''hi''
              (Exception ''translation provider down''))
   \<and> \<not> spec_proceeds_with_original ''kya kal barish hogi''
         (service_fallback hindi_service ''kya kal barish hogi'' ''hi''
            (Exception ''translation provider down''))"
  by (simp add: service_process_query_def service_try_def service_except_def service_steps_def
        and_then_def hindi_service_def demo_service_def info_language_def
        spec_proceeds_with_original_def service_fallback_def)

end
